theory Spec2Isabelle
  imports Main
begin


section \<open>Python values\<close>

text \<open>
  The export utilities of \<^verbatim>\<open>utils/export_utils.py\<close> work on the loosely typed values
  that the property API returns: \<^verbatim>\<open>None\<close>, booleans, integers, strings, lists and
  dictionaries with string keys. A dictionary is an association list in insertion
  order; a lookup takes the first pair with the key. Characters are the code points
  0 to 255. Floating-point numbers are left out of the embedding.
\<close>

datatype pyval =
    PNone
  | PBool bool
  | PInt int
  | PStr string
  | PList "pyval list"
  | PDict "(string \<times> pyval) list"

text \<open>Exceptions carry their message, the text that \<^verbatim>\<open>str(e)\<close> returns.\<close>

datatype pyexn =
    PyException string
  | AttributeError string
  | TypeError string
  | ValueError string
  | KeyError string

fun str_exn :: "pyexn \<Rightarrow> string" where
  "str_exn (PyException m) = m"
| "str_exn (AttributeError m) = m"
| "str_exn (TypeError m) = m"
| "str_exn (ValueError m) = m"
| "str_exn (KeyError m) = m"

fun truthy :: "pyval \<Rightarrow> bool" where
  "truthy PNone = False"
| "truthy (PBool b) = b"
| "truthy (PInt i) = (i \<noteq> 0)"
| "truthy (PStr s) = (s \<noteq> [])"
| "truthy (PList xs) = (xs \<noteq> [])"
| "truthy (PDict kvs) = (kvs \<noteq> [])"

fun py_type_name :: "pyval \<Rightarrow> string" where
  "py_type_name PNone = ''NoneType''"
| "py_type_name (PBool b) = ''bool''"
| "py_type_name (PInt i) = ''int''"
| "py_type_name (PStr s) = ''str''"
| "py_type_name (PList xs) = ''list''"
| "py_type_name (PDict kvs) = ''dict''"

text \<open>\<^verbatim>\<open>d.get(key, default)\<close> on a dictionary, and \<^verbatim>\<open>key in d\<close>.\<close>

definition dict_get :: "(string \<times> pyval) list \<Rightarrow> string \<Rightarrow> pyval \<Rightarrow> pyval" where
  "dict_get d k dflt = (case map_of d k of None \<Rightarrow> dflt | Some v \<Rightarrow> v)"

definition dict_has :: "(string \<times> pyval) list \<Rightarrow> string \<Rightarrow> bool" where
  "dict_has d k = (case map_of d k of None \<Rightarrow> False | Some v \<Rightarrow> True)"

text \<open>\<^verbatim>\<open>d[key] = value\<close>: an existing key keeps its place, a new key goes last.\<close>

fun dict_set :: "(string \<times> 'v) list \<Rightarrow> string \<Rightarrow> 'v \<Rightarrow> (string \<times> 'v) list" where
  "dict_set [] k v = [(k, v)]"
| "dict_set ((k', v') # d) k v = (if k' = k then (k, v) # d else (k', v') # dict_set d k v)"

text \<open>The message of the AttributeError that a method call on a value without it raises.\<close>

definition no_attribute :: "pyval \<Rightarrow> string \<Rightarrow> pyexn" where
  "no_attribute v a =
     AttributeError ([CHR 39] @ py_type_name v @ [CHR 39] @ '' object has no attribute ''
                     @ [CHR 39] @ a @ [CHR 39])"

section \<open>Decimal text of integers\<close>

definition digit_char :: "nat \<Rightarrow> char" where
  "digit_char d = char_of (48 + d)"

fun show_nat :: "nat \<Rightarrow> string" where
  "show_nat n = (if n < 10 then [digit_char n] else show_nat (n div 10) @ [digit_char (n mod 10)])"

declare show_nat.simps [simp del]

definition show_int :: "int \<Rightarrow> string" where
  "show_int i = (if i < 0 then CHR ''-'' # show_nat (nat (- i)) else show_nat (nat i))"

text \<open>Reading decimal text back.\<close>

definition digit_val :: "char \<Rightarrow> nat" where
  "digit_val c = of_char c - 48"

definition read_nat :: "string \<Rightarrow> nat" where
  "read_nat s = foldl (\<lambda>a c. 10 * a + digit_val c) 0 s"

section \<open>Timestamps and file names\<close>

text \<open>
  \<^verbatim>\<open>datetime.now()\<close> reads the clock; the reading is a parameter of every function
  that takes one. A reading has the fields of a naive \<^verbatim>\<open>datetime\<close>.
\<close>

record datetime =
  year :: nat
  month :: nat
  day :: nat
  hour :: nat
  minute :: nat
  second :: nat
  microsecond :: nat

text \<open>
  The ranges of the fields of a clock reading. Years are taken from 1000 on, where
  \<^verbatim>\<open>%Y\<close> prints four digits on every platform.
\<close>

definition valid_datetime :: "datetime \<Rightarrow> bool" where
  "valid_datetime t =
     (1000 \<le> year t \<and> year t \<le> 9999 \<and> 1 \<le> month t \<and> month t \<le> 12
      \<and> 1 \<le> day t \<and> day t \<le> 31 \<and> hour t < 24 \<and> minute t < 60 \<and> second t < 60
      \<and> microsecond t < 1000000)"

text \<open>Two decimal digits, zero padded: \<^verbatim>\<open>%m %d %H %M %S\<close>.\<close>

definition pad2 :: "nat \<Rightarrow> string" where
  "pad2 n = (if n < 10 then CHR ''0'' # show_nat n else show_nat n)"

text \<open>\<^verbatim>\<open>strftime('%Y%m%d_%H%M%S')\<close>\<close>

definition strftime_compact :: "datetime \<Rightarrow> string" where
  "strftime_compact t =
     show_nat (year t) @ pad2 (month t) @ pad2 (day t) @ ''_''
     @ pad2 (hour t) @ pad2 (minute t) @ pad2 (second t)"

text \<open>\<^verbatim>\<open>strftime("%Y-%m-%d %H:%M:%S")\<close>\<close>

definition strftime_iso :: "datetime \<Rightarrow> string" where
  "strftime_iso t =
     show_nat (year t) @ ''-'' @ pad2 (month t) @ ''-'' @ pad2 (day t) @ '' ''
     @ pad2 (hour t) @ '':'' @ pad2 (minute t) @ '':'' @ pad2 (second t)"

text \<open>
  \<^verbatim>\<open>search_id or 'export'\<close>: the identifier is optional, and an empty one is falsy
  like \<^verbatim>\<open>None\<close>.
\<close>

definition id_or_export :: "string option \<Rightarrow> string" where
  "id_or_export search_id =
     (case search_id of None \<Rightarrow> ''export'' | Some s \<Rightarrow> if s = [] then ''export'' else s)"

datatype export_format = Json | Csv | Xlsx | Pdf

text \<open>
  The file name each exporter builds: \<^verbatim>\<open>f"property_search_{search_id or 'export'}_{timestamp}.json"\<close>,
  the same with \<^verbatim>\<open>.csv\<close> and \<^verbatim>\<open>.xlsx\<close>, and \<^verbatim>\<open>property_report_..._.pdf\<close> for the report.
\<close>

fun export_filename :: "export_format \<Rightarrow> string option \<Rightarrow> datetime \<Rightarrow> string" where
  "export_filename Json search_id now =
     ''property_search_'' @ id_or_export search_id @ ''_'' @ strftime_compact now @ ''.json''"
| "export_filename Csv search_id now =
     ''property_search_'' @ id_or_export search_id @ ''_'' @ strftime_compact now @ ''.csv''"
| "export_filename Xlsx search_id now =
     ''property_search_'' @ id_or_export search_id @ ''_'' @ strftime_compact now @ ''.xlsx''"
| "export_filename Pdf search_id now =
     ''property_report_'' @ id_or_export search_id @ ''_'' @ strftime_compact now @ ''.pdf''"

section \<open>Library operations on values\<close>

text \<open>\<^verbatim>\<open>sep.join(strings)\<close>\<close>

fun join_strs :: "string \<Rightarrow> string list \<Rightarrow> string" where
  "join_strs sep [] = []"
| "join_strs sep [x] = x"
| "join_strs sep (x # y # ys) = x @ sep @ join_strs sep (y # ys)"

text \<open>
  \<^verbatim>\<open>str.join\<close> takes the items of its argument in order and raises a TypeError at the
  first one that is not a string.
\<close>

fun str_items :: "nat \<Rightarrow> pyval list \<Rightarrow> pyexn + string list" where
  "str_items i [] = Inr []"
| "str_items i (x # xs) =
     (case x of
        PStr s \<Rightarrow> (case str_items (i + 1) xs of Inl e \<Rightarrow> Inl e | Inr ss \<Rightarrow> Inr (s # ss))
      | _ \<Rightarrow> Inl (TypeError (''sequence item '' @ show_nat i @ '': expected str instance, ''
                             @ py_type_name x @ '' found'')))"

text \<open>
  \<^verbatim>\<open>sep.join(v)\<close> for any value: a list gives its items, a string its characters, a
  dictionary its keys; anything else is not iterable.
\<close>

fun py_join :: "string \<Rightarrow> pyval \<Rightarrow> pyexn + string" where
  "py_join sep (PList xs) =
     (case str_items 0 xs of Inl e \<Rightarrow> Inl e | Inr ss \<Rightarrow> Inr (join_strs sep ss))"
| "py_join sep (PStr s) = Inr (join_strs sep (map (\<lambda>c. [c]) s))"
| "py_join sep (PDict kvs) = Inr (join_strs sep (map fst kvs))"
| "py_join sep v = Inl (TypeError ''can only join an iterable'')"

text \<open>\<^verbatim>\<open>needle in haystack\<close> on strings: the needle occurs as a contiguous part.\<close>

fun starts_with :: "string \<Rightarrow> string \<Rightarrow> bool" where
  "starts_with [] s = True"
| "starts_with (p # ps) [] = False"
| "starts_with (p # ps) (c # cs) = (p = c \<and> starts_with ps cs)"

fun str_contains :: "string \<Rightarrow> string \<Rightarrow> bool" where
  "str_contains needle [] = (needle = [])"
| "str_contains needle (c # cs) = (starts_with needle (c # cs) \<or> str_contains needle cs)"

text \<open>
  \<^verbatim>\<open>key in v\<close> for a string key and any value: key membership in a dictionary, item
  membership in a list, containment in a string, and a TypeError otherwise.
\<close>

fun py_in :: "string \<Rightarrow> pyval \<Rightarrow> pyexn + bool" where
  "py_in k (PDict d) = Inr (dict_has d k)"
| "py_in k (PList xs) = Inr (PStr k \<in> set xs)"
| "py_in k (PStr s) = Inr (str_contains k s)"
| "py_in k v =
     Inl (TypeError (''argument of type '' @ [CHR 39] @ py_type_name v @ [CHR 39]
                     @ '' is not iterable''))"

text \<open>\<^verbatim>\<open>v[key]\<close> for a string key. A missing key is a KeyError, whose text is the key quoted.\<close>

fun py_index :: "pyval \<Rightarrow> string \<Rightarrow> pyexn + pyval" where
  "py_index (PDict d) k =
     (case map_of d k of
        Some x \<Rightarrow> Inr x
      | None \<Rightarrow> Inl (KeyError ([CHR 39] @ k @ [CHR 39])))"
| "py_index (PList xs) k = Inl (TypeError ''list indices must be integers or slices, not str'')"
| "py_index (PStr s) k =
     Inl (TypeError (''string indices must be integers, not '' @ [CHR 39] @ ''str'' @ [CHR 39]))"
| "py_index v k =
     Inl (TypeError ([CHR 39] @ py_type_name v @ [CHR 39] @ '' object is not subscriptable''))"

text \<open>\<^verbatim>\<open>"Yes" if v else "No"\<close>\<close>

definition yes_no :: "pyval \<Rightarrow> pyval" where
  "yes_no v = (if truthy v then PStr ''Yes'' else PStr ''No'')"

definition NA :: pyval where
  "NA = PStr ''N/A''"

section \<open>Data frames\<close>

text \<open>
  \<^verbatim>\<open>pd.DataFrame(rows)\<close> on a list of dictionaries: the columns are the keys in the order
  of their first appearance over all rows, and a row without a key has a missing cell
  (\<open>None\<close>) in that column.
\<close>

record dataframe =
  columns :: "string list"
  cells :: "pyval option list list"

type_synonym row = "(string \<times> pyval) list"

definition df_columns :: "row list \<Rightarrow> string list" where
  "df_columns rows =
     fold (\<lambda>r cols. fold (\<lambda>k cols. if k \<in> set cols then cols else cols @ [k]) (map fst r) cols)
          rows []"

definition DataFrame :: "row list \<Rightarrow> dataframe" where
  "DataFrame rows =
     \<lparr>columns = df_columns rows,
      cells = map (\<lambda>r. map (map_of r) (df_columns rows)) rows\<rparr>"

section \<open>Tabular export: \<^verbatim>\<open>export_to_csv\<close>\<close>

text \<open>The dictionary literal that opens the loop body: sixteen \<^verbatim>\<open>prop.get\<close> calls.\<close>

definition csv_base_row :: "(string \<times> pyval) list \<Rightarrow> row" where
  "csv_base_row prop =
     [(''Address'', dict_get prop ''formattedAddress'' NA),
      (''City'', dict_get prop ''city'' NA),
      (''State'', dict_get prop ''state'' NA),
      (''ZIP Code'', dict_get prop ''zipCode'' NA),
      (''Property Type'', dict_get prop ''propertyType'' NA),
      (''Bedrooms'', dict_get prop ''bedrooms'' NA),
      (''Bathrooms'', dict_get prop ''bathrooms'' NA),
      (''Square Footage'', dict_get prop ''squareFootage'' NA),
      (''Lot Size'', dict_get prop ''lotSize'' NA),
      (''Year Built'', dict_get prop ''yearBuilt'' NA),
      (''Last Sale Price'', dict_get prop ''lastSalePrice'' NA),
      (''Last Sale Date'', dict_get prop ''lastSaleDate'' NA),
      (''Owner Occupied'', yes_no (dict_get prop ''ownerOccupied'' PNone)),
      (''Assessor ID'', dict_get prop ''assessorID'' NA),
      (''County'', dict_get prop ''county'' NA),
      (''Zoning'', dict_get prop ''zoning'' NA)]"

text \<open>\<^verbatim>\<open>"owner" in prop and prop["owner"]\<close>, and the same test for the other nested fields.\<close>

definition has_truthy :: "(string \<times> pyval) list \<Rightarrow> string \<Rightarrow> bool" where
  "has_truthy prop k = (dict_has prop k \<and> truthy (dict_get prop k PNone))"

text \<open>
  The owner block. A truthy \<^verbatim>\<open>owner\<close> that is no dictionary has no \<^verbatim>\<open>get\<close>, and the
  names are joined only when they are truthy.
\<close>

definition csv_add_owner :: "(string \<times> pyval) list \<Rightarrow> row \<Rightarrow> pyexn + row" where
  "csv_add_owner prop r =
     (if has_truthy prop ''owner'' then
        (case dict_get prop ''owner'' PNone of
           PDict owner \<Rightarrow>
             (let names = dict_get owner ''names'' (PList []) in
              case (if truthy names then py_join '', '' names else Inr ''N/A'') of
                Inl e \<Rightarrow> Inl e
              | Inr joined \<Rightarrow>
                  Inr (dict_set (dict_set r ''Owner Names'' (PStr joined))
                         ''Owner Type'' (dict_get owner ''type'' NA)))
         | v \<Rightarrow> Inl (no_attribute v ''get''))
      else Inr (dict_set (dict_set r ''Owner Names'' NA) ''Owner Type'' NA))"

text \<open>The features block has no \<^verbatim>\<open>else\<close>: without features the row keeps its keys.\<close>

definition csv_add_features :: "(string \<times> pyval) list \<Rightarrow> row \<Rightarrow> pyexn + row" where
  "csv_add_features prop r =
     (if has_truthy prop ''features'' then
        (case dict_get prop ''features'' PNone of
           PDict features \<Rightarrow>
             Inr (dict_set (dict_set (dict_set (dict_set (dict_set (dict_set r
                ''Architecture Type'' (dict_get features ''architectureType'' NA))
                ''Exterior Type'' (dict_get features ''exteriorType'' NA))
                ''Heating'' (yes_no (dict_get features ''heating'' PNone)))
                ''Cooling'' (yes_no (dict_get features ''cooling'' PNone)))
                ''Garage'' (yes_no (dict_get features ''garage'' PNone)))
                ''Garage Spaces'' (dict_get features ''garageSpaces'' NA))
         | v \<Rightarrow> Inl (no_attribute v ''get''))
      else Inr r)"

text \<open>
  One pass of the loop body: the row of one record. A record that is no dictionary
  fails at the first \<^verbatim>\<open>prop.get\<close>.
\<close>

definition csv_row :: "pyval \<Rightarrow> pyexn + row" where
  "csv_row prop =
     (case prop of
        PDict d \<Rightarrow>
          (case csv_add_owner d (csv_base_row d) of
             Inl e \<Rightarrow> Inl e
           | Inr r \<Rightarrow> csv_add_features d r)
      | v \<Rightarrow> Inl (no_attribute v ''get''))"

text \<open>The loop \<^verbatim>\<open>for prop in search_results\<close>: an exception in one pass ends the loop.\<close>

fun csv_rows :: "pyval list \<Rightarrow> pyexn + row list" where
  "csv_rows [] = Inr []"
| "csv_rows (prop # rest) =
     (case csv_row prop of
        Inl e \<Rightarrow> Inl e
      | Inr r \<Rightarrow> (case csv_rows rest of Inl e \<Rightarrow> Inl e | Inr rs \<Rightarrow> Inr (r # rs)))"

text \<open>
  \<^verbatim>\<open>df.to_csv(index=False)\<close>: a header line with the column names, then one record per
  row of the frame. The text of a cell is the library's and is not modelled; the
  CSV is kept as the header and the records.
\<close>

record csv_table =
  csv_header :: "string list"
  csv_records :: "pyval option list list"

definition to_csv :: "dataframe \<Rightarrow> csv_table" where
  "to_csv df = \<lparr>csv_header = columns df, csv_records = cells df\<rparr>"

text \<open>The body of the \<^verbatim>\<open>try\<close> block.\<close>

definition export_to_csv_body ::
  "pyval list \<Rightarrow> string option \<Rightarrow> datetime \<Rightarrow> pyexn + (csv_table \<times> string)" where
  "export_to_csv_body search_results search_id now =
     (if search_results = [] then Inl (PyException ''No search results to export'')
      else
        (case csv_rows search_results of
           Inl e \<Rightarrow> Inl e
         | Inr df_data \<Rightarrow> Inr (to_csv (DataFrame df_data), export_filename Csv search_id now)))"

text \<open>\<^verbatim>\<open>except Exception as e: raise Exception(f"CSV export failed: {str(e)}")\<close>\<close>

definition export_to_csv ::
  "pyval list \<Rightarrow> string option \<Rightarrow> datetime \<Rightarrow> pyexn + (csv_table \<times> string)" where
  "export_to_csv search_results search_id now =
     (case export_to_csv_body search_results search_id now of
        Inl e \<Rightarrow> Inl (PyException (''CSV export failed: '' @ str_exn e))
      | Inr result \<Rightarrow> Inr result)"

section \<open>Column names and example inputs\<close>

definition base_columns :: "string list" where
  "base_columns =
     [''Address'', ''City'', ''State'', ''ZIP Code'', ''Property Type'', ''Bedrooms'',
      ''Bathrooms'', ''Square Footage'', ''Lot Size'', ''Year Built'', ''Last Sale Price'',
      ''Last Sale Date'', ''Owner Occupied'', ''Assessor ID'', ''County'', ''Zoning'',
      ''Owner Names'', ''Owner Type'']"

definition feature_columns :: "string list" where
  "feature_columns =
     [''Architecture Type'', ''Exterior Type'', ''Heating'', ''Cooling'', ''Garage'',
      ''Garage Spaces'']"

definition has_features :: "pyval \<Rightarrow> bool" where
  "has_features prop = (case prop of PDict d \<Rightarrow> has_truthy d ''features'' | _ \<Rightarrow> False)"

definition add_keys :: "string list \<Rightarrow> string list \<Rightarrow> string list" where
  "add_keys ks cols = fold (\<lambda>k cols. if k \<in> set cols then cols else cols @ [k]) ks cols"

definition csv_fields :: "string list" where
  "csv_fields =
     [''formattedAddress'', ''city'', ''state'', ''zipCode'', ''propertyType'', ''bedrooms'',
      ''bathrooms'', ''squareFootage'', ''lotSize'', ''yearBuilt'', ''lastSalePrice'',
      ''lastSaleDate'', ''ownerOccupied'', ''assessorID'', ''county'', ''zoning'',
      ''owner'', ''features'']"

definition default_cells :: "pyval list" where
  "default_cells =
     [NA, NA, NA, NA, NA, NA, NA, NA, NA, NA, NA, NA, PStr ''No'', NA, NA, NA, NA, NA]"

definition example_time :: datetime where
  "example_time =
     \<lparr>year = 2024, month = 3, day = 9, hour = 7, minute = 5, second = 0, microsecond = 0\<rparr>"

definition example_records :: "pyval list" where
  "example_records =
     [PDict [(''formattedAddress'', PStr ''1 Main St''), (''bedrooms'', PInt 3)],
      PDict [],
      PDict [(''owner'', PDict [(''names'', PList [PStr ''Ann'', PStr ''Bo''])]),
             (''features'', PDict [(''garage'', PBool True), (''garageSpaces'', PInt 2)])]]"

definition bad_records :: "pyval list" where
  "bad_records =
     [PDict [(''formattedAddress'', PStr ''1 Main St'')], PDict [(''owner'', PStr ''Bob'')]]"


section \<open>Text of values: \<^verbatim>\<open>str\<close> and \<^verbatim>\<open>repr\<close>\<close>

definition hex_char :: "nat \<Rightarrow> char" where
  "hex_char n = ''0123456789abcdef'' ! n"

definition hex2 :: "nat \<Rightarrow> string" where
  "hex2 n = [hex_char (n div 16), hex_char (n mod 16)]"

text \<open>
  \<^verbatim>\<open>str.isprintable\<close> on the code points 0 to 255: the ASCII range from the space to
  the tilde, and the Latin-1 range above the no-break space without the soft hyphen.
\<close>

definition printable :: "char \<Rightarrow> bool" where
  "printable c =
     (let n = (of_char c :: nat)
      in (32 \<le> n \<and> n < 127) \<or> (161 \<le> n \<and> n < 173) \<or> 173 < n)"

text \<open>One character inside the quotes of \<^verbatim>\<open>repr(s)\<close>, for the quote character \<open>q\<close>.\<close>

definition repr_char :: "char \<Rightarrow> char \<Rightarrow> string" where
  "repr_char q c =
     (if c = q \<or> c = CHR 0x5C then [CHR 0x5C, c]
      else if c = CHR 0x09 then [CHR 0x5C, CHR ''t'']
      else if c = CHR 0x0A then [CHR 0x5C, CHR ''n'']
      else if c = CHR 0x0D then [CHR 0x5C, CHR ''r'']
      else if printable c then [c]
      else [CHR 0x5C, CHR ''x''] @ hex2 (of_char c))"

text \<open>
  \<^verbatim>\<open>repr\<close> of a string: single quotes, unless the string has a single quote and no
  double quote.
\<close>

definition repr_str :: "string \<Rightarrow> string" where
  "repr_str s =
     (let q = (if CHR 0x27 \<in> set s \<and> CHR 0x22 \<notin> set s then CHR 0x22 else CHR 0x27)
      in q # concat (map (repr_char q) s) @ [q])"

fun py_repr :: "pyval \<Rightarrow> string"
  and py_repr_list :: "pyval list \<Rightarrow> string list"
  and py_repr_items :: "(string \<times> pyval) list \<Rightarrow> string list" where
  "py_repr PNone = ''None''"
| "py_repr (PBool b) = (if b then ''True'' else ''False'')"
| "py_repr (PInt i) = show_int i"
| "py_repr (PStr s) = repr_str s"
| "py_repr (PList xs) = ''['' @ join_strs '', '' (py_repr_list xs) @ '']''"
| "py_repr (PDict kvs) = ''{'' @ join_strs '', '' (py_repr_items kvs) @ ''}''"
| "py_repr_list [] = []"
| "py_repr_list (x # xs) = py_repr x # py_repr_list xs"
| "py_repr_items [] = []"
| "py_repr_items ((k, v) # kvs) = (repr_str k @ '': '' @ py_repr v) # py_repr_items kvs"

text \<open>\<^verbatim>\<open>str(v)\<close>: a string is itself, any other value prints as its \<^verbatim>\<open>repr\<close>.\<close>

definition py_str :: "pyval \<Rightarrow> string" where
  "py_str v = (case v of PStr s \<Rightarrow> s | _ \<Rightarrow> py_repr v)"

text \<open>Method calls on any value: \<^verbatim>\<open>v.get(key, default)\<close> and \<^verbatim>\<open>v.items()\<close>.\<close>

definition py_get :: "pyval \<Rightarrow> string \<Rightarrow> pyval \<Rightarrow> pyexn + pyval" where
  "py_get v k dflt = (case v of PDict d \<Rightarrow> Inr (dict_get d k dflt) | _ \<Rightarrow> Inl (no_attribute v ''get''))"

definition py_items :: "pyval \<Rightarrow> pyexn + (string \<times> pyval) list" where
  "py_items v = (case v of PDict d \<Rightarrow> Inr d | _ \<Rightarrow> Inl (no_attribute v ''items''))"

section \<open>Workbook export: \<^verbatim>\<open>export_to_excel\<close>\<close>

text \<open>The row of the main sheet: fifteen \<^verbatim>\<open>prop.get\<close> calls.\<close>

definition excel_row :: "(string \<times> pyval) list \<Rightarrow> row" where
  "excel_row prop =
     [(''Address'', dict_get prop ''formattedAddress'' NA),
      (''City'', dict_get prop ''city'' NA),
      (''State'', dict_get prop ''state'' NA),
      (''ZIP Code'', dict_get prop ''zipCode'' NA),
      (''Property Type'', dict_get prop ''propertyType'' NA),
      (''Bedrooms'', dict_get prop ''bedrooms'' NA),
      (''Bathrooms'', dict_get prop ''bathrooms'' NA),
      (''Square Footage'', dict_get prop ''squareFootage'' NA),
      (''Lot Size'', dict_get prop ''lotSize'' NA),
      (''Year Built'', dict_get prop ''yearBuilt'' NA),
      (''Last Sale Price'', dict_get prop ''lastSalePrice'' NA),
      (''Last Sale Date'', dict_get prop ''lastSaleDate'' NA),
      (''Owner Occupied'', yes_no (dict_get prop ''ownerOccupied'' PNone)),
      (''County'', dict_get prop ''county'' NA),
      (''Zoning'', dict_get prop ''zoning'' NA)]"

fun excel_rows :: "pyval list \<Rightarrow> pyexn + row list" where
  "excel_rows [] = Inr []"
| "excel_rows (prop # rest) =
     (case prop of
        PDict d \<Rightarrow> (case excel_rows rest of Inl e \<Rightarrow> Inl e | Inr rs \<Rightarrow> Inr (excel_row d # rs))
      | v \<Rightarrow> Inl (no_attribute v ''get''))"

text \<open>\<^verbatim>\<open>key in prop and prop[key]\<close>, as a truth value, for any value \<^verbatim>\<open>prop\<close>.\<close>

definition in_and_truthy :: "string \<Rightarrow> pyval \<Rightarrow> pyexn + bool" where
  "in_and_truthy k prop =
     (case py_in k prop of
        Inl e \<Rightarrow> Inl e
      | Inr present \<Rightarrow>
          if present then (case py_index prop k of Inl e \<Rightarrow> Inl e | Inr v \<Rightarrow> Inr (truthy v))
          else Inr False)"

text \<open>The dictionaries appended for one year of one record, on the two tax sheets.\<close>

definition tax_assessment_row :: "nat \<Rightarrow> pyval \<Rightarrow> string \<Rightarrow> (string \<times> pyval) list \<Rightarrow> row" where
  "tax_assessment_row i address yr data =
     [(''Property Index'', PInt (int i + 1)),
      (''Address'', address),
      (''Year'', PStr yr),
      (''Total Value'', dict_get data ''value'' NA),
      (''Land Value'', dict_get data ''land'' NA),
      (''Improvements'', dict_get data ''improvements'' NA)]"

definition property_tax_row :: "nat \<Rightarrow> pyval \<Rightarrow> string \<Rightarrow> (string \<times> pyval) list \<Rightarrow> row" where
  "property_tax_row i address yr data =
     [(''Property Index'', PInt (int i + 1)),
      (''Address'', address),
      (''Year'', PStr yr),
      (''Total Tax'', dict_get data ''total'' NA)]"

text \<open>
  The inner loop \<^verbatim>\<open>for year, data in prop[key].items()\<close> for the record at position
  \<open>i\<close>: the address is read first, then the fields of \<^verbatim>\<open>data\<close>.
\<close>

fun year_rows ::
  "(nat \<Rightarrow> pyval \<Rightarrow> string \<Rightarrow> (string \<times> pyval) list \<Rightarrow> row) \<Rightarrow> nat \<Rightarrow> pyval
   \<Rightarrow> (string \<times> pyval) list \<Rightarrow> pyexn + row list" where
  "year_rows mk i prop [] = Inr []"
| "year_rows mk i prop ((yr, data) # rest) =
     (case py_get prop ''formattedAddress'' NA of
        Inl e \<Rightarrow> Inl e
      | Inr address \<Rightarrow>
          (case data of
             PDict d \<Rightarrow>
               (case year_rows mk i prop rest of
                  Inl e \<Rightarrow> Inl e
                | Inr rs \<Rightarrow> Inr (mk i address yr d # rs))
           | v \<Rightarrow> Inl (no_attribute v ''get'')))"

text \<open>The body of the outer loop for one record: nothing unless the field is there and truthy.\<close>

definition record_year_rows ::
  "string \<Rightarrow> (nat \<Rightarrow> pyval \<Rightarrow> string \<Rightarrow> (string \<times> pyval) list \<Rightarrow> row) \<Rightarrow> nat \<Rightarrow> pyval
   \<Rightarrow> pyexn + row list" where
  "record_year_rows k mk i prop =
     (case in_and_truthy k prop of
        Inl e \<Rightarrow> Inl e
      | Inr go \<Rightarrow>
          if go then
            (case py_index prop k of
               Inl e \<Rightarrow> Inl e
             | Inr v \<Rightarrow> (case py_items v of Inl e \<Rightarrow> Inl e | Inr its \<Rightarrow> year_rows mk i prop its))
          else Inr [])"

text \<open>The outer loop \<^verbatim>\<open>for i, prop in enumerate(search_results)\<close>, from position \<open>i\<close> on.\<close>

fun tax_loop ::
  "string \<Rightarrow> (nat \<Rightarrow> pyval \<Rightarrow> string \<Rightarrow> (string \<times> pyval) list \<Rightarrow> row) \<Rightarrow> nat \<Rightarrow> pyval list
   \<Rightarrow> pyexn + row list" where
  "tax_loop k mk i [] = Inr []"
| "tax_loop k mk i (prop # rest) =
     (case record_year_rows k mk i prop of
        Inl e \<Rightarrow> Inl e
      | Inr rs \<Rightarrow>
          (case tax_loop k mk (i + 1) rest of Inl e \<Rightarrow> Inl e | Inr later \<Rightarrow> Inr (rs @ later)))"

text \<open>The rows of the \<^verbatim>\<open>Search Info\<close> sheet.\<close>

definition metadata_rows :: "pyval \<Rightarrow> pyexn + row list" where
  "metadata_rows search_metadata =
     (case py_items search_metadata of
        Inl e \<Rightarrow> Inl e
      | Inr its \<Rightarrow> Inr (map (\<lambda>(k, v). [(''Field'', PStr k), (''Value'', PStr (py_str v))]) its))"

text \<open>
  A workbook is the list of its sheets in the order they are written. Writing a
  sheet is taken to succeed; the binary encoding of the file is not modelled.
\<close>

record sheet =
  sheet_name :: string
  sheet_frame :: dataframe

definition to_excel :: "dataframe \<Rightarrow> string \<Rightarrow> sheet" where
  "to_excel df name = \<lparr>sheet_name = name, sheet_frame = df\<rparr>"

definition export_to_excel_body ::
  "pyval list \<Rightarrow> pyval \<Rightarrow> string option \<Rightarrow> datetime \<Rightarrow> pyexn + (sheet list \<times> string)" where
  "export_to_excel_body search_results search_metadata search_id now =
     (if search_results = [] then Inl (PyException ''No search results to export'')
      else
        (case excel_rows search_results of
           Inl e \<Rightarrow> Inl e
         | Inr df_data \<Rightarrow>
        (case tax_loop ''taxAssessments'' tax_assessment_row 0 search_results of
           Inl e \<Rightarrow> Inl e
         | Inr tax_data \<Rightarrow>
        (case tax_loop ''propertyTaxes'' property_tax_row 0 search_results of
           Inl e \<Rightarrow> Inl e
         | Inr property_tax_data \<Rightarrow>
        (case (if truthy search_metadata then metadata_rows search_metadata else Inr []) of
           Inl e \<Rightarrow> Inl e
         | Inr metadata_data \<Rightarrow>
             Inr ([to_excel (DataFrame df_data) ''Properties'']
                  @ (if tax_data \<noteq> [] then [to_excel (DataFrame tax_data) ''Tax Assessments'']
                     else [])
                  @ (if property_tax_data \<noteq> []
                     then [to_excel (DataFrame property_tax_data) ''Property Taxes''] else [])
                  @ (if truthy search_metadata
                     then [to_excel (DataFrame metadata_data) ''Search Info''] else []),
                  export_filename Xlsx search_id now))))))"

definition export_to_excel ::
  "pyval list \<Rightarrow> pyval \<Rightarrow> string option \<Rightarrow> datetime \<Rightarrow> pyexn + (sheet list \<times> string)" where
  "export_to_excel search_results search_metadata search_id now =
     (case export_to_excel_body search_results search_metadata search_id now of
        Inl e \<Rightarrow> Inl (PyException (''Excel export failed: '' @ str_exn e))
      | Inr result \<Rightarrow> Inr result)"

text \<open>The frame of the sheet with a given name, if the workbook has one.\<close>

fun find_sheet :: "string \<Rightarrow> sheet list \<Rightarrow> dataframe option" where
  "find_sheet name [] = None"
| "find_sheet name (s # ss) = (if sheet_name s = name then Some (sheet_frame s) else find_sheet name ss)"

section \<open>The documented layout of the workbook\<close>

definition excel_columns :: "string list" where
  "excel_columns =
     [''Address'', ''City'', ''State'', ''ZIP Code'', ''Property Type'', ''Bedrooms'',
      ''Bathrooms'', ''Square Footage'', ''Lot Size'', ''Year Built'', ''Last Sale Price'',
      ''Last Sale Date'', ''Owner Occupied'', ''County'', ''Zoning'']"







definition example_tax_records :: "pyval list" where
  "example_tax_records =
     [PDict [(''formattedAddress'', PStr ''1 Main St''),
             (''taxAssessments'',
                PDict [(''2022'', PDict [(''value'', PInt 100)]), (''2023'', PDict [])])],
      PDict [],
      PDict [(''taxAssessments'', PDict [(''2021'', PDict [])]),
             (''propertyTaxes'', PDict [(''2021'', PDict [(''total'', PInt 7)])])]]"

section \<open>Report export: \<^verbatim>\<open>export_to_pdf_report\<close>\<close>

text \<open>
  The format specification \<^verbatim>\<open>:,\<close> of an f-string: an integer in groups of three
  digits. A boolean formats as the integer it is; a string, \<^verbatim>\<open>None\<close>, a list or a
  dictionary raises.
\<close>

definition pad3 :: "nat \<Rightarrow> string" where
  "pad3 n = (if n < 10 then ''00'' @ show_nat n else if n < 100 then ''0'' @ show_nat n
             else show_nat n)"

fun group_thousands :: "nat \<Rightarrow> string" where
  "group_thousands n =
     (if n < 1000 then show_nat n
      else group_thousands (n div 1000) @ '','' @ pad3 (n mod 1000))"

declare group_thousands.simps [simp del]

definition format_comma_int :: "int \<Rightarrow> string" where
  "format_comma_int i =
     (if i < 0 then CHR ''-'' # group_thousands (nat (- i)) else group_thousands (nat i))"

fun format_comma :: "pyval \<Rightarrow> pyexn + string" where
  "format_comma (PInt i) = Inr (format_comma_int i)"
| "format_comma (PBool b) = Inr (format_comma_int (if b then 1 else 0))"
| "format_comma (PStr s) =
     Inl (ValueError (''Cannot specify '' @ [CHR 0x27] @ '','' @ [CHR 0x27] @ '' with ''
                      @ [CHR 0x27] @ ''s'' @ [CHR 0x27] @ ''.''))"
| "format_comma v =
     Inl (TypeError (''unsupported format string passed to '' @ py_type_name v
                     @ ''.__format__''))"

text \<open>
  The flowables of the report. Page geometry, fonts and colours are left out; a
  paragraph keeps its text and style, a table its cells and which of the two table
  styles it has, a spacer its two arguments.
\<close>

datatype para_style = CustomTitle | CustomHeading

datatype table_style = MetadataTable | PropertyTable

datatype flowable =
    Paragraph string para_style
  | Table "pyval list list" table_style
  | Spacer nat nat

text \<open>
  The list \<^verbatim>\<open>prop_data\<close> of one record: eight label and value pairs. The two
  formatted cells test the value for truth first and format only a truthy one.
\<close>

definition pdf_prop_data :: "(string \<times> pyval) list \<Rightarrow> pyexn + pyval list list" where
  "pdf_prop_data prop =
     (case (if truthy (dict_get prop ''squareFootage'' PNone)
            then format_comma (dict_get prop ''squareFootage'' NA) else Inr ''N/A'') of
        Inl e \<Rightarrow> Inl e
      | Inr square_footage \<Rightarrow>
     (case (if truthy (dict_get prop ''lastSalePrice'' PNone)
            then (case format_comma (dict_get prop ''lastSalePrice'' (PInt 0)) of
                    Inl e \<Rightarrow> Inl e | Inr s \<Rightarrow> Inr (''$'' @ s))
            else Inr ''N/A'') of
        Inl e \<Rightarrow> Inl e
      | Inr last_sale_price \<Rightarrow>
          Inr [[PStr ''Address'', dict_get prop ''formattedAddress'' NA],
               [PStr ''Property Type'', dict_get prop ''propertyType'' NA],
               [PStr ''Bedrooms'', PStr (py_str (dict_get prop ''bedrooms'' NA))],
               [PStr ''Bathrooms'', PStr (py_str (dict_get prop ''bathrooms'' NA))],
               [PStr ''Square Footage'', PStr square_footage],
               [PStr ''Year Built'', PStr (py_str (dict_get prop ''yearBuilt'' NA))],
               [PStr ''Last Sale Price'', PStr last_sale_price],
               [PStr ''Owner Occupied'', yes_no (dict_get prop ''ownerOccupied'' PNone)]]))"

text \<open>
  The loop \<^verbatim>\<open>for i, prop in enumerate(search_results, 1)\<close> from position \<open>i\<close> on, for
  a sequence of \<open>n\<close> records: a heading, the table, a spacer, and a larger spacer
  after every second record but the last.
\<close>

fun pdf_property_sections :: "nat \<Rightarrow> nat \<Rightarrow> pyval list \<Rightarrow> pyexn + flowable list" where
  "pdf_property_sections n i [] = Inr []"
| "pdf_property_sections n i (p # rest) =
     (case p of
        PDict d \<Rightarrow>
          (case pdf_prop_data d of
             Inl e \<Rightarrow> Inl e
           | Inr prop_data \<Rightarrow>
               (case pdf_property_sections n (i + 1) rest of
                  Inl e \<Rightarrow> Inl e
                | Inr later \<Rightarrow>
                    Inr ([Paragraph (''Property '' @ show_nat i) CustomHeading,
                          Table prop_data PropertyTable, Spacer 1 15]
                         @ (if i mod 2 = 0 \<and> i < n then [Spacer 1 50] else [])
                         @ later)))
      | v \<Rightarrow> Inl (no_attribute v ''get''))"

text \<open>
  The metadata section. \<^verbatim>\<open>str.title\<close> is the library's title casing and is a
  parameter, \<open>title\<close>; the key \<^verbatim>\<open>results\<close> is skipped.
\<close>

definition replace_underscores :: "string \<Rightarrow> string" where
  "replace_underscores s = map (\<lambda>c. if c = CHR ''_'' then CHR '' '' else c) s"

definition pdf_metadata_section ::
  "(string \<Rightarrow> string) \<Rightarrow> pyval \<Rightarrow> pyexn + flowable list" where
  "pdf_metadata_section title search_metadata =
     (if truthy search_metadata then
        (case py_items search_metadata of
           Inl e \<Rightarrow> Inl e
         | Inr its \<Rightarrow>
             (let metadata_data =
                    map (\<lambda>(k, v). [PStr (title (replace_underscores k)), PStr (py_str v)])
                        (filter (\<lambda>(k, v). k \<noteq> ''results'') its)
              in Inr ([Paragraph ''Search Information'' CustomHeading]
                      @ (if metadata_data \<noteq> []
                         then [Table metadata_data MetadataTable, Spacer 1 20] else []))))
      else Inr [])"

text \<open>
  The body of the \<^verbatim>\<open>try\<close> block. The document is kept as its list of flowables;
  laying it out into the bytes of a PDF file is not modelled.
\<close>

definition export_to_pdf_report_body ::
  "(string \<Rightarrow> string) \<Rightarrow> pyval list \<Rightarrow> pyval \<Rightarrow> string option \<Rightarrow> datetime
   \<Rightarrow> pyexn + (flowable list \<times> string)" where
  "export_to_pdf_report_body title search_results search_metadata search_id now =
     (if search_results = [] then Inl (PyException ''No search results to export'')
      else
        (case pdf_metadata_section title search_metadata of
           Inl e \<Rightarrow> Inl e
         | Inr metadata \<Rightarrow>
        (case pdf_property_sections (length search_results) 1 search_results of
           Inl e \<Rightarrow> Inl e
         | Inr sections \<Rightarrow>
             Inr ([Paragraph ''Property Search Report'' CustomTitle]
                  @ metadata
                  @ [Paragraph (''Properties Found: '' @ show_nat (length search_results))
                       CustomHeading]
                  @ sections,
                  export_filename Pdf search_id now))))"

definition export_to_pdf_report ::
  "(string \<Rightarrow> string) \<Rightarrow> pyval list \<Rightarrow> pyval \<Rightarrow> string option \<Rightarrow> datetime
   \<Rightarrow> pyexn + (flowable list \<times> string)" where
  "export_to_pdf_report title search_results search_metadata search_id now =
     (case export_to_pdf_report_body title search_results search_metadata search_id now of
        Inl e \<Rightarrow> Inl (PyException (''PDF export failed: '' @ str_exn e))
      | Inr result \<Rightarrow> Inr result)"

section \<open>Summary: \<^verbatim>\<open>get_export_summary\<close>\<close>

text \<open>\<^verbatim>\<open>if key in prop_data: summary[column] = prop_data[key]\<close>\<close>

definition copy_field :: "pyval \<Rightarrow> string \<Rightarrow> string \<Rightarrow> row \<Rightarrow> pyexn + row" where
  "copy_field prop_data k column summary =
     (case py_in k prop_data of
        Inl e \<Rightarrow> Inl e
      | Inr present \<Rightarrow>
          if present then
            (case py_index prop_data k of
               Inl e \<Rightarrow> Inl e
             | Inr v \<Rightarrow> Inr (dict_set summary column v))
          else Inr summary)"

text \<open>
  \<^verbatim>\<open>if "results" in data and isinstance(data["results"], list):
      summary["Total Properties"] = len(data["results"])\<close>
\<close>

definition count_results :: "pyval \<Rightarrow> row \<Rightarrow> pyexn + row" where
  "count_results data summary =
     (case py_in ''results'' data of
        Inl e \<Rightarrow> Inl e
      | Inr present \<Rightarrow>
          if present then
            (case py_index data ''results'' of
               Inl e \<Rightarrow> Inl e
             | Inr (PList xs) \<Rightarrow> Inr (dict_set summary ''Total Properties'' (PInt (int (length xs))))
             | Inr v \<Rightarrow> Inr summary)
          else Inr summary)"

text \<open>The body of the \<^verbatim>\<open>try\<close> block, with the clock reading taken inside it.\<close>

definition export_summary_body :: "datetime \<Rightarrow> pyval \<Rightarrow> pyexn + row" where
  "export_summary_body now search_data =
     (let summary = [(''Export Date'', PStr (strftime_iso now)),
                     (''Total Properties'', PInt 0),
                     (''Search Address'', NA),
                     (''Search Date'', NA)]
      in case search_data of
           PDict sd \<Rightarrow>
             if dict_has sd ''property_data'' then
               (let prop_data = dict_get sd ''property_data'' PNone in
                case copy_field prop_data ''address'' ''Search Address'' summary of
                  Inl e \<Rightarrow> Inl e
                | Inr s1 \<Rightarrow>
                    (case copy_field prop_data ''search_timestamp'' ''Search Date'' s1 of
                       Inl e \<Rightarrow> Inl e
                     | Inr s2 \<Rightarrow> count_results prop_data s2))
             else count_results search_data summary
         | v \<Rightarrow> Inr summary)"

text \<open>
  The handler returns a mapping of its own, with a second clock reading, \<open>later\<close>.
  Both ways out of the function are a \<^verbatim>\<open>return\<close>.
\<close>

definition get_export_summary :: "datetime \<Rightarrow> datetime \<Rightarrow> pyval \<Rightarrow> pyexn + row" where
  "get_export_summary now later search_data =
     (case export_summary_body now search_data of
        Inr summary \<Rightarrow> Inr summary
      | Inl e \<Rightarrow>
          Inr [(''Export Date'', PStr (strftime_iso later)),
               (''Error'', PStr (''Could not generate summary: '' @ str_exn e))])"

section \<open>The documented layout of the report and of the summary\<close>

text \<open>The cells of the property tables of a report, one table per record.\<close>

definition property_tables :: "flowable list \<Rightarrow> pyval list list list" where
  "property_tables content =
     concat (map (\<lambda>f. case f of Table tbl PropertyTable \<Rightarrow> [tbl] | _ \<Rightarrow> []) content)"

text \<open>The number of results a mapping announces: the length of its list \<^verbatim>\<open>results\<close>.\<close>

definition results_count :: "(string \<times> pyval) list \<Rightarrow> pyval" where
  "results_count d =
     (case map_of d ''results'' of Some (PList xs) \<Rightarrow> PInt (int (length xs)) | _ \<Rightarrow> PInt 0)"

definition summary_columns :: "string list" where
  "summary_columns = [''Export Date'', ''Total Properties'', ''Search Address'', ''Search Date'']"

text \<open>A dictionary without a key.\<close>

definition dict_del :: "(string \<times> pyval) list \<Rightarrow> string \<Rightarrow> (string \<times> pyval) list" where
  "dict_del d k = filter (\<lambda>(k', v). k' \<noteq> k) d"

definition example_falsy_record :: "(string \<times> pyval) list" where
  "example_falsy_record =
     [(''formattedAddress'', PStr ''2 Oak Ave''), (''squareFootage'', PInt 0),
      (''lastSalePrice'', PNone), (''ownerOccupied'', PStr '''')]"

definition example_report_records :: "pyval list" where
  "example_report_records =
     [PDict [(''formattedAddress'', PStr ''1 Main St''), (''squareFootage'', PInt 1500),
             (''lastSalePrice'', PInt 2500), (''ownerOccupied'', PBool True)],
      PDict example_falsy_record]"

section \<open>Tabular export\<close>

lemma dict_set_fresh_keys:
  "k \<notin> set (map fst r) \<Longrightarrow> map fst (dict_set r k v) = map fst r @ [k]"
  by (induction r) auto

lemma csv_add_owner_keys:
  "csv_add_owner d (csv_base_row d) = Inr r \<Longrightarrow> map fst r = base_columns"
  by (auto simp: csv_add_owner_def csv_base_row_def base_columns_def Let_def
           split: if_splits pyval.splits sum.splits)

lemma csv_add_features_keys:
  assumes "map fst r = base_columns" "csv_add_features d r = Inr r'"
  shows "map fst r' = base_columns @ (if has_truthy d ''features'' then feature_columns else [])"
proof (cases "has_truthy d ''features''")
  case False
  with assms show ?thesis by (simp add: csv_add_features_def)
next
  case True
  with assms(2) obtain f where r': "r' = dict_set (dict_set (dict_set (dict_set (dict_set (dict_set r
                ''Architecture Type'' (dict_get f ''architectureType'' NA))
                ''Exterior Type'' (dict_get f ''exteriorType'' NA))
                ''Heating'' (yes_no (dict_get f ''heating'' PNone)))
                ''Cooling'' (yes_no (dict_get f ''cooling'' PNone)))
                ''Garage'' (yes_no (dict_get f ''garage'' PNone)))
                ''Garage Spaces'' (dict_get f ''garageSpaces'' NA)"
    by (auto simp: csv_add_features_def split: pyval.splits)
  show ?thesis
    unfolding r' using True assms(1)
    by (simp add: dict_set_fresh_keys base_columns_def feature_columns_def)
qed

lemma csv_row_keys:
  "csv_row p = Inr r \<Longrightarrow>
   map fst r = base_columns @ (if has_features p then feature_columns else [])"
  by (auto simp: csv_row_def has_features_def split: pyval.splits sum.splits
           dest!: csv_add_owner_keys csv_add_features_keys)

lemma df_columns_add_keys: "df_columns rows = fold (\<lambda>r. add_keys (map fst r)) rows []"
  by (simp add: df_columns_def add_keys_def [abs_def])

lemma add_keys_known: "set ks \<subseteq> set cols \<Longrightarrow> add_keys ks cols = cols"
  unfolding add_keys_def by (induction ks) auto

lemma add_keys_fresh:
  "distinct ks \<Longrightarrow> set ks \<inter> set cols = {} \<Longrightarrow> add_keys ks cols = cols @ ks"
  unfolding add_keys_def by (induction ks arbitrary: cols) auto

lemma add_keys_append: "add_keys (ks @ ls) cols = add_keys ls (add_keys ks cols)"
  by (simp add: add_keys_def)

lemma fold_add_keys_full:
  assumes "\<forall>r \<in> set rows. set (map fst r) \<subseteq> set cols"
  shows "fold (\<lambda>r. add_keys (map fst r)) rows cols = cols"
  using assms by (induction rows) (auto simp: add_keys_known)

lemma fold_add_keys_base:
  assumes "distinct (A @ B)"
    and "\<forall>r \<in> set rows. map fst r = A @ (if f r then B else [])"
  shows "fold (\<lambda>r. add_keys (map fst r)) rows A = A @ (if \<exists>r \<in> set rows. f r then B else [])"
  using assms(2)
proof (induction rows)
  case Nil
  then show ?case by simp
next
  case (Cons r rows)
  show ?case
  proof (cases "f r")
    case True
    with Cons.prems have k: "map fst r = A @ B" by simp
    have "add_keys (map fst r) A = A @ B"
      using assms(1) by (simp add: k add_keys_append add_keys_known add_keys_fresh Int_commute)
    moreover have "fold (\<lambda>r. add_keys (map fst r)) rows (A @ B) = A @ B"
      using Cons.prems by (intro fold_add_keys_full) auto
    ultimately show ?thesis using True by simp
  next
    case False
    with Cons.prems have k: "map fst r = A" by simp
    have "add_keys (map fst r) A = A" by (simp add: k add_keys_known)
    with Cons False show ?thesis by simp
  qed
qed

lemma df_columns_shape:
  assumes "distinct (A @ B)" "rows \<noteq> []"
    and "\<forall>r \<in> set rows. map fst r = A @ (if f r then B else [])"
  shows "df_columns rows = A @ (if \<exists>r \<in> set rows. f r then B else [])"
proof -
  from assms(2) obtain r rest where rows: "rows = r # rest" by (cases rows) auto
  have d: "distinct A" "distinct B" "set A \<inter> set B = {}" using assms(1) by auto
  show ?thesis
  proof (cases "f r")
    case True
    with assms(3) rows have k: "map fst r = A @ B" by simp
    have "add_keys (map fst r) [] = A @ B"
      using assms(1) by (simp add: k add_keys_fresh)
    moreover have "fold (\<lambda>r. add_keys (map fst r)) rest (A @ B) = A @ B"
      using assms(3) rows by (intro fold_add_keys_full) auto
    ultimately show ?thesis using True rows by (simp add: df_columns_add_keys)
  next
    case False
    with assms(3) rows have k: "map fst r = A" by simp
    have "add_keys (map fst r) [] = A"
      using d by (simp add: k add_keys_fresh)
    moreover have "fold (\<lambda>r. add_keys (map fst r)) rest A
                   = A @ (if \<exists>r \<in> set rest. f r then B else [])"
      using assms(1,3) rows by (intro fold_add_keys_base) auto
    ultimately show ?thesis using False rows by (simp add: df_columns_add_keys)
  qed
qed

lemma csv_rows_length: "csv_rows ps = Inr rs \<Longrightarrow> length rs = length ps"
  by (induction ps arbitrary: rs) (auto split: sum.splits)

lemma csv_rows_nth:
  "csv_rows ps = Inr rs \<Longrightarrow> i < length ps \<Longrightarrow> csv_row (ps ! i) = Inr (rs ! i)"
proof (induction ps arbitrary: rs i)
  case Nil
  then show ?case by simp
next
  case (Cons p ps)
  then show ?case by (cases i) (auto split: sum.splits)
qed

lemma csv_rows_fail:
  "csv_row p = Inl e \<Longrightarrow> p \<in> set ps \<Longrightarrow> \<exists>e'. csv_rows ps = Inl e'"
  by (induction ps) (auto split: sum.splits)

lemma csv_rows_ok:
  "\<forall>p \<in> set ps. \<exists>r. csv_row p = Inr r \<Longrightarrow> \<exists>rs. csv_rows ps = Inr rs"
  by (induction ps) (auto split: sum.splits)

lemma distinct_csv_columns: "distinct (base_columns @ feature_columns)"
  by (simp add: base_columns_def feature_columns_def)

lemma csv_rows_columns:
  assumes "csv_rows ps = Inr rs" "ps \<noteq> []"
  shows "df_columns rs
         = base_columns @ (if \<exists>p \<in> set ps. has_features p then feature_columns else [])"
proof -
  have len: "length rs = length ps" using assms(1) by (rule csv_rows_length)
  have keys: "\<forall>i < length ps. map fst (rs ! i)
                = base_columns @ (if has_features (ps ! i) then feature_columns else [])"
    using csv_rows_nth [OF assms(1)] csv_row_keys by blast
  define f where "f r = (map fst r = base_columns @ feature_columns)" for r :: row
  have neq: "base_columns \<noteq> base_columns @ feature_columns"
    by (simp add: feature_columns_def)
  have f_iff: "\<forall>i < length ps. f (rs ! i) = has_features (ps ! i)"
    using keys neq by (auto simp: f_def)
  have "\<forall>r \<in> set rs. map fst r = base_columns @ (if f r then feature_columns else [])"
    using keys len by (auto simp: f_def in_set_conv_nth)
  moreover have "rs \<noteq> []" using len assms(2) by auto
  ultimately have "df_columns rs
        = base_columns @ (if \<exists>r \<in> set rs. f r then feature_columns else [])"
    using distinct_csv_columns by (intro df_columns_shape) auto
  moreover have "(\<exists>r \<in> set rs. f r) = (\<exists>p \<in> set ps. has_features p)"
    using f_iff len by (metis in_set_conv_nth)
  ultimately show ?thesis by simp
qed

lemma map_of_own_keys:
  "distinct (map fst r) \<Longrightarrow> map (map_of r) (map fst r) = map (Some \<circ> snd) r"
proof (induction r)
  case Nil
  then show ?case by simp
next
  case (Cons kv r)
  then have "fst kv \<notin> set (map fst r)" by simp
  then have "\<forall>k \<in> set (map fst r). map_of (kv # r) k = map_of r k"
    by (cases kv) auto
  then have "map (map_of (kv # r)) (map fst r) = map (map_of r) (map fst r)"
    by (intro map_cong) auto
  with Cons show ?case by simp
qed

lemma map_of_other_keys:
  "set ks \<inter> set (map fst r) = {} \<Longrightarrow> map (map_of r) ks = replicate (length ks) None"
proof (induction ks)
  case Nil
  then show ?case by simp
next
  case (Cons k ks)
  then have "map_of r k = None" by (auto simp: map_of_eq_None_iff)
  with Cons show ?case by simp
qed

lemma row_cells:
  assumes "distinct (A @ B)"
    and "map fst r = A @ (if f then B else [])"
    and "cols = A @ (if g then B else [])"
    and "f \<longrightarrow> g"
  shows "map (map_of r) cols = map (Some \<circ> snd) r @ replicate (length cols - length r) None"
proof (cases f)
  case True
  with assms have "cols = map fst r" "distinct (map fst r)" by auto
  then show ?thesis by (simp add: map_of_own_keys)
next
  case False
  with assms have k: "map fst r = A" "distinct (map fst r)" by auto
  have lr: "length r = length A" using k(1) by (metis length_map)
  show ?thesis
  proof (cases g)
    case True
    have "set B \<inter> set (map fst r) = {}" using assms(1) k(1) by auto
    then have "map (map_of r) B = replicate (length B) None" by (rule map_of_other_keys)
    moreover have "map (map_of r) A = map (Some \<circ> snd) r"
      using map_of_own_keys [OF k(2)] k(1) by simp
    ultimately show ?thesis using True assms(3) lr by simp
  next
    case False
    with assms(3) k have "cols = map fst r" by simp
    then show ?thesis using k(2) by (simp add: map_of_own_keys)
  qed
qed

lemma export_to_csv_Inr:
  "export_to_csv ps sid now = Inr (csv, fname) \<longleftrightarrow>
     ps \<noteq> [] \<and> (\<exists>rs. csv_rows ps = Inr rs \<and> csv = to_csv (DataFrame rs))
     \<and> fname = export_filename Csv sid now"
  by (auto simp: export_to_csv_def export_to_csv_body_def split: sum.splits)

lemma csv_table_of_rows:
  "csv_header (to_csv (DataFrame rs)) = df_columns rs"
  "csv_records (to_csv (DataFrame rs)) = map (\<lambda>r. map (map_of r) (df_columns rs)) rs"
  by (simp_all add: to_csv_def DataFrame_def)

lemma csv_record_nth:
  assumes "csv_rows ps = Inr rs" "i < length ps"
  shows "csv_records (to_csv (DataFrame rs)) ! i
         = map (Some \<circ> snd) (rs ! i)
           @ replicate (length (csv_header (to_csv (DataFrame rs))) - length (rs ! i)) None"
proof -
  have len: "length rs = length ps" using assms(1) by (rule csv_rows_length)
  have ne: "ps \<noteq> []" using assms(2) by auto
  have keys: "map fst (rs ! i)
      = base_columns @ (if has_features (ps ! i) then feature_columns else [])"
    using csv_rows_nth [OF assms] by (rule csv_row_keys)
  have cols: "df_columns rs
      = base_columns @ (if \<exists>p \<in> set ps. has_features p then feature_columns else [])"
    using assms(1) ne by (rule csv_rows_columns)
  have "has_features (ps ! i) \<longrightarrow> (\<exists>p \<in> set ps. has_features p)"
    using assms(2) by auto
  from row_cells [OF distinct_csv_columns keys cols this]
  show ?thesis using assms(2) len by (simp add: csv_table_of_rows)
qed

text \<open>
  Claim C4. When every record of a non-empty sequence normalises, \<^verbatim>\<open>export_to_csv\<close>
  returns one header and exactly as many data records as there are input records, and
  the i-th data record holds the values of the normalised i-th input record, in their
  order, followed by blank cells for the columns that record does not have.
\<close>

theorem csv_rows_in_order:
  assumes "search_results \<noteq> []"
    and "\<forall>p \<in> set search_results. \<exists>r. csv_row p = Inr r"
  shows "\<exists>csv. export_to_csv search_results search_id now
                 = Inr (csv, export_filename Csv search_id now)
           \<and> length (csv_records csv) = length search_results
           \<and> (\<forall>i < length search_results. \<exists>r.
                 csv_row (search_results ! i) = Inr r
                 \<and> csv_records csv ! i
                   = map (Some \<circ> snd) r @ replicate (length (csv_header csv) - length r) None)"
proof -
  from assms(2) obtain rs where rs: "csv_rows search_results = Inr rs"
    using csv_rows_ok by blast
  let ?csv = "to_csv (DataFrame rs)"
  have "export_to_csv search_results search_id now
          = Inr (?csv, export_filename Csv search_id now)"
    using assms(1) rs by (simp add: export_to_csv_Inr)
  moreover have "length (csv_records ?csv) = length search_results"
    using csv_rows_length [OF rs] by (simp add: csv_table_of_rows)
  moreover have "\<forall>i < length search_results. \<exists>r.
                 csv_row (search_results ! i) = Inr r
                 \<and> csv_records ?csv ! i
                   = map (Some \<circ> snd) r @ replicate (length (csv_header ?csv) - length r) None"
    using csv_rows_nth [OF rs] csv_record_nth [OF rs] by blast
  ultimately show ?thesis by blast
qed

lemma csv_rows_first_failure:
  assumes "i < length ps" "csv_row (ps ! i) = Inl e"
    and "\<forall>j < i. \<exists>r. csv_row (ps ! j) = Inr r"
  shows "csv_rows ps = Inl e"
  using assms
proof (induction ps arbitrary: i)
  case Nil
  then show ?case by simp
next
  case (Cons p ps)
  show ?case
  proof (cases i)
    case 0
    with Cons.prems show ?thesis by simp
  next
    case (Suc k)
    with Cons.prems have "\<exists>r. csv_row p = Inr r" by fastforce
    moreover have "csv_rows ps = Inl e"
    proof (rule Cons.IH [of k])
      show "k < length ps" using Cons.prems Suc by simp
      show "csv_row (ps ! k) = Inl e" using Cons.prems Suc by simp
      show "\<forall>j < k. \<exists>r. csv_row (ps ! j) = Inr r"
        using Cons.prems(3) Suc by (metis Suc_mono nth_Cons_Suc)
    qed
    ultimately show ?thesis by auto
  qed
qed

text \<open>
  Claim C1, as amended. The loop has no handler of its own: when normalising a record
  raises, and every record before it normalised, \<^verbatim>\<open>export_to_csv\<close> returns no rows at
  all and raises one exception, \<^verbatim>\<open>CSV export failed:\<close> followed by the message of that
  record's exception.
\<close>

theorem csv_failing_record_aborts:
  assumes "i < length search_results"
    and "csv_row (search_results ! i) = Inl e"
    and "\<forall>j < i. \<exists>r. csv_row (search_results ! j) = Inr r"
  shows "export_to_csv search_results search_id now
         = Inl (PyException (''CSV export failed: '' @ str_exn e))"
proof -
  have "search_results \<noteq> []" using assms(1) by auto
  moreover have "csv_rows search_results = Inl e"
    using assms by (rule csv_rows_first_failure)
  ultimately show ?thesis by (simp add: export_to_csv_def export_to_csv_body_def)
qed

lemma default_row:
  assumes "\<forall>k \<in> set csv_fields. \<not> dict_has d k"
  shows "csv_row (PDict d) = Inr (zip base_columns default_cells)"
proof -
  have none: "\<And>k. k \<in> set csv_fields \<Longrightarrow> map_of d k = None"
    using assms by (auto simp: dict_has_def split: option.splits)
  have g: "\<And>k dflt. k \<in> set csv_fields \<Longrightarrow> dict_get d k dflt = dflt"
    by (simp add: dict_get_def none)
  have h: "\<not> has_truthy d ''owner''" "\<not> has_truthy d ''features''"
    using assms by (auto simp: has_truthy_def csv_fields_def)
  have "csv_base_row d = zip (take 16 base_columns) (take 16 default_cells)"
    unfolding csv_base_row_def
    by (simp add: g csv_fields_def base_columns_def default_cells_def yes_no_def)
  then show ?thesis
    by (simp add: csv_row_def csv_add_owner_def csv_add_features_def h
                  base_columns_def default_cells_def)
qed

text \<open>
  Claim C3, as amended. A successful \<^verbatim>\<open>export_to_csv\<close> has the eighteen base columns
  in their fixed order as header, followed by the six feature columns exactly when
  some record has a non-empty \<^verbatim>\<open>features\<close> value. Every data record is as wide as the
  header, and a record with none of the fields has "N/A" in every base column ("No"
  for Owner Occupied) and blank cells in the feature columns.
\<close>

theorem csv_header_columns:
  assumes "export_to_csv search_results search_id now = Inr (csv, fname)"
  shows "csv_header csv
           = base_columns
             @ (if \<exists>p \<in> set search_results. has_features p then feature_columns else [])
         \<and> (\<forall>cells \<in> set (csv_records csv). length cells = length (csv_header csv))
         \<and> (\<forall>i < length search_results. \<forall>d.
               search_results ! i = PDict d \<and> (\<forall>k \<in> set csv_fields. \<not> dict_has d k)
               \<longrightarrow> csv_records csv ! i
                     = map Some default_cells @ replicate (length (csv_header csv) - 18) None)"
proof -
  from assms obtain rs where ne: "search_results \<noteq> []"
    and rs: "csv_rows search_results = Inr rs" and csv: "csv = to_csv (DataFrame rs)"
    by (auto simp: export_to_csv_Inr)
  have "csv_header csv
           = base_columns
             @ (if \<exists>p \<in> set search_results. has_features p then feature_columns else [])"
    using csv_rows_columns [OF rs ne] by (simp add: csv csv_table_of_rows)
  moreover have "\<forall>cells \<in> set (csv_records csv). length cells = length (csv_header csv)"
    by (auto simp: csv csv_table_of_rows)
  moreover have "\<forall>i < length search_results. \<forall>d.
               search_results ! i = PDict d \<and> (\<forall>k \<in> set csv_fields. \<not> dict_has d k)
               \<longrightarrow> csv_records csv ! i
                     = map Some default_cells @ replicate (length (csv_header csv) - 18) None"
  proof (intro allI impI)
    fix i d
    assume i: "i < length search_results"
      and d: "search_results ! i = PDict d \<and> (\<forall>k \<in> set csv_fields. \<not> dict_has d k)"
    have "csv_row (search_results ! i) = Inr (zip base_columns default_cells)"
      using d default_row by simp
    with csv_rows_nth [OF rs i] have r: "rs ! i = zip base_columns default_cells" by simp
    have z: "map (Some \<circ> snd) (zip base_columns default_cells) = map Some default_cells"
      "length (zip base_columns default_cells) = 18"
      by (simp_all add: base_columns_def default_cells_def)
    show "csv_records csv ! i
            = map Some default_cells @ replicate (length (csv_header csv) - 18) None"
      using csv_record_nth [OF rs i] unfolding csv r z .
  qed
  ultimately show ?thesis by blast
qed

lemma example_rows_ok: "\<forall>p \<in> set example_records. \<exists>r. csv_row p = Inr r"
  by (simp add: example_records_def csv_row_def csv_add_owner_def csv_add_features_def
        has_truthy_def dict_has_def dict_get_def Let_def)

theorem csv_rows_in_order_witness:
  "\<exists>csv. export_to_csv example_records None example_time
            = Inr (csv, export_filename Csv None example_time)
         \<and> length (csv_records csv) = 3
         \<and> (\<exists>r. csv_row (example_records ! 1) = Inr r
                \<and> csv_records csv ! 1
                  = map (Some \<circ> snd) r @ replicate (length (csv_header csv) - length r) None)"
proof -
  have ne: "example_records \<noteq> []" and len: "length example_records = 3"
    by (simp_all add: example_records_def)
  from csv_rows_in_order [OF ne example_rows_ok, of None example_time] len
  show ?thesis by auto
qed

theorem csv_header_columns_witness:
  "\<exists>csv fname. export_to_csv example_records None example_time = Inr (csv, fname)
     \<and> csv_header csv = base_columns @ feature_columns
     \<and> csv_records csv ! 1 = map Some default_cells @ replicate 6 None"
proof -
  have ne: "example_records \<noteq> []" by (simp add: example_records_def)
  from csv_rows_ok [OF example_rows_ok] obtain rs where "csv_rows example_records = Inr rs"
    by blast
  with ne obtain csv where ex: "export_to_csv example_records None example_time
            = Inr (csv, export_filename Csv None example_time)"
    by (simp add: export_to_csv_Inr)
  have f: "\<exists>p \<in> set example_records. has_features p"
    by (simp add: example_records_def has_features_def has_truthy_def dict_has_def dict_get_def)
  have e: "example_records ! 1 = PDict [] \<and> (\<forall>k \<in> set csv_fields. \<not> dict_has [] k)"
    by (simp add: example_records_def dict_has_def)
  have l: "(1::nat) < length example_records" by (simp add: example_records_def)
  from csv_header_columns [OF ex] f e l
  have "csv_header csv = base_columns @ feature_columns"
    "csv_records csv ! 1 = map Some default_cells @ replicate (length (csv_header csv) - 18) None"
    by auto
  moreover have "length (base_columns @ feature_columns) - 18 = 6"
    by (simp add: base_columns_def feature_columns_def)
  ultimately have "csv_header csv = base_columns @ feature_columns
     \<and> csv_records csv ! 1 = map Some default_cells @ replicate 6 None"
    by simp
  with ex show ?thesis by blast
qed

text \<open>
  Claim C3 as stated fails: the export of one empty record has a header of eighteen
  columns, not twenty-four.
\<close>

theorem csv_header_24_counterexample:
  "export_to_csv [PDict []] None
     \<lparr>year = 2024, month = 3, day = 9, hour = 7, minute = 5, second = 0, microsecond = 0\<rparr>
   = Inr (\<lparr>csv_header =
             [''Address'', ''City'', ''State'', ''ZIP Code'', ''Property Type'', ''Bedrooms'',
              ''Bathrooms'', ''Square Footage'', ''Lot Size'', ''Year Built'',
              ''Last Sale Price'', ''Last Sale Date'', ''Owner Occupied'', ''Assessor ID'',
              ''County'', ''Zoning'', ''Owner Names'', ''Owner Type''],
           csv_records =
             [[Some (PStr ''N/A''), Some (PStr ''N/A''), Some (PStr ''N/A''),
               Some (PStr ''N/A''), Some (PStr ''N/A''), Some (PStr ''N/A''),
               Some (PStr ''N/A''), Some (PStr ''N/A''), Some (PStr ''N/A''),
               Some (PStr ''N/A''), Some (PStr ''N/A''), Some (PStr ''N/A''),
               Some (PStr ''No''), Some (PStr ''N/A''), Some (PStr ''N/A''),
               Some (PStr ''N/A''), Some (PStr ''N/A''), Some (PStr ''N/A'')]]\<rparr>,
          ''property_search_export_20240309_070500.csv'')"
  by code_simp

text \<open>
  Claim C1 as stated fails: a record whose \<^verbatim>\<open>owner\<close> is a string aborts the export,
  and the row of the well-formed record before it is not returned.
\<close>

theorem csv_skip_record_counterexample:
  "export_to_csv
     [PDict [(''formattedAddress'', PStr ''1 Main St'')], PDict [(''owner'', PStr ''Bob'')]]
     None
     \<lparr>year = 2024, month = 3, day = 9, hour = 7, minute = 5, second = 0, microsecond = 0\<rparr>
   = Inl (PyException (''CSV export failed: '' @ [CHR 39] @ ''str'' @ [CHR 39]
            @ '' object has no attribute '' @ [CHR 39] @ ''get'' @ [CHR 39]))"
  by code_simp

theorem csv_failing_record_aborts_witness:
  "export_to_csv bad_records None example_time
   = Inl (PyException (''CSV export failed: '' @ str_exn (no_attribute (PStr ''Bob'') ''get'')))"
proof -
  have i: "(1::nat) < length bad_records" by (simp add: bad_records_def)
  have e: "csv_row (bad_records ! 1) = Inl (no_attribute (PStr ''Bob'') ''get'')"
    by (simp add: bad_records_def csv_row_def csv_add_owner_def has_truthy_def dict_has_def
          dict_get_def)
  have o: "\<forall>j < 1. \<exists>r. csv_row (bad_records ! j) = Inr r"
    by (simp add: bad_records_def csv_row_def csv_add_owner_def csv_add_features_def
          has_truthy_def dict_has_def dict_get_def)
  from csv_failing_record_aborts [OF i e o] show ?thesis .
qed

section \<open>File names\<close>

lemma digit_val_digit_char: "d < 10 \<Longrightarrow> digit_val (digit_char d) = d"
  by (simp add: digit_val_def digit_char_def)

lemma read_nat_snoc: "read_nat (s @ [c]) = 10 * read_nat s + digit_val c"
  by (simp add: read_nat_def)

lemma read_nat_show_nat: "read_nat (show_nat n) = n"
proof (induction n rule: show_nat.induct)
  case (1 n)
  show ?case
  proof (cases "n < 10")
    case True
    then show ?thesis
      by (subst show_nat.simps) (simp add: read_nat_def digit_val_digit_char)
  next
    case False
    with 1 have "read_nat (show_nat (n div 10)) = n div 10" by simp
    with False show ?thesis
      by (subst show_nat.simps) (simp add: read_nat_snoc digit_val_digit_char)
  qed
qed

lemma show_nat_inj: "show_nat m = show_nat n \<Longrightarrow> m = n"
  by (metis read_nat_show_nat)

lemma length_show_nat_1: "n < 10 \<Longrightarrow> length (show_nat n) = 1"
  by (subst show_nat.simps) simp

lemma length_show_nat_2: "10 \<le> n \<Longrightarrow> n < 100 \<Longrightarrow> length (show_nat n) = 2"
  by (subst show_nat.simps) (simp add: length_show_nat_1)

lemma length_show_nat_3: "100 \<le> n \<Longrightarrow> n < 1000 \<Longrightarrow> length (show_nat n) = 3"
  by (subst show_nat.simps) (simp add: length_show_nat_2)

lemma length_show_nat_4: "1000 \<le> n \<Longrightarrow> n < 10000 \<Longrightarrow> length (show_nat n) = 4"
  by (subst show_nat.simps) (simp add: length_show_nat_3)

lemma length_pad2: "n < 100 \<Longrightarrow> length (pad2 n) = 2"
  by (simp add: pad2_def length_show_nat_1 length_show_nat_2)

lemma read_nat_leading_zero: "read_nat (CHR ''0'' # s) = read_nat s"
  by (simp add: read_nat_def digit_val_def)

lemma read_nat_pad2: "read_nat (pad2 n) = n"
  by (simp add: pad2_def read_nat_leading_zero read_nat_show_nat)

lemma pad2_inj: "pad2 m = pad2 n \<Longrightarrow> m = n"
  by (metis read_nat_pad2)

lemma valid_datetime_lengths:
  assumes "valid_datetime t"
  shows "length (show_nat (year t)) = 4" "length (pad2 (month t)) = 2"
    "length (pad2 (day t)) = 2" "length (pad2 (hour t)) = 2"
    "length (pad2 (minute t)) = 2" "length (pad2 (second t)) = 2"
proof -
  from assms have "1000 \<le> year t" "year t < 10000" "month t < 100" "day t < 100"
    "hour t < 100" "minute t < 100" "second t < 100"
    by (simp_all add: valid_datetime_def)
  then show "length (show_nat (year t)) = 4" "length (pad2 (month t)) = 2"
    "length (pad2 (day t)) = 2" "length (pad2 (hour t)) = 2"
    "length (pad2 (minute t)) = 2" "length (pad2 (second t)) = 2"
    by (simp_all add: length_show_nat_4 length_pad2)
qed

lemma strftime_compact_inj:
  assumes "valid_datetime s" "valid_datetime t" "strftime_compact s = strftime_compact t"
  shows "year s = year t \<and> month s = month t \<and> day s = day t
         \<and> hour s = hour t \<and> minute s = minute t \<and> second s = second t"
proof -
  note ls = valid_datetime_lengths [OF assms(1)]
  note lt = valid_datetime_lengths [OF assms(2)]
  from assms(3) have "show_nat (year s) = show_nat (year t)
      \<and> pad2 (month s) = pad2 (month t) \<and> pad2 (day s) = pad2 (day t)
      \<and> pad2 (hour s) = pad2 (hour t) \<and> pad2 (minute s) = pad2 (minute t)
      \<and> pad2 (second s) = pad2 (second t)"
    by (simp add: strftime_compact_def ls lt)
  then show ?thesis by (blast dest: show_nat_inj pad2_inj)
qed

lemma length_strftime_compact: "valid_datetime t \<Longrightarrow> length (strftime_compact t) = 15"
  by (simp add: strftime_compact_def valid_datetime_lengths)

lemma strftime_compact_underscore:
  assumes "valid_datetime t"
  shows "strftime_compact t ! 8 = CHR ''_''"
proof -
  let ?a = "show_nat (year t) @ pad2 (month t) @ pad2 (day t)"
  let ?b = "pad2 (hour t) @ pad2 (minute t) @ pad2 (second t)"
  have l: "length ?a = 8" using assms by (simp add: valid_datetime_lengths)
  have "strftime_compact t = ?a @ CHR ''_'' # ?b" by (simp add: strftime_compact_def)
  then show ?thesis using l by (metis nth_append_length)
qed

text \<open>
  Claim C9. For one identifier and one format, two clock readings that differ in a
  field down to the second give different file names. The name is the documented
  prefix, the identifier as it was supplied (\<^verbatim>\<open>export\<close> when none is given), an
  underscore, the fifteen characters \<^verbatim>\<open>yyyyMMdd_HHmmss\<close> and the extension of the
  format: \<^verbatim>\<open>property_search_{id}_{timestamp}\<close> with \<^verbatim>\<open>.json\<close>, \<^verbatim>\<open>.csv\<close> or \<^verbatim>\<open>.xlsx\<close>,
  and \<^verbatim>\<open>property_report_{id}_{timestamp}.pdf\<close> for the report.
\<close>

theorem filenames_distinct_per_second:
  assumes "valid_datetime s" "valid_datetime t"
    and "(year s, month s, day s, hour s, minute s, second s)
         \<noteq> (year t, month t, day t, hour t, minute t, second t)"
  shows "export_filename fmt search_id s \<noteq> export_filename fmt search_id t
         \<and> length (strftime_compact s) = 15 \<and> strftime_compact s ! 8 = CHR ''_''
         \<and> (ident \<noteq> [] \<longrightarrow>
              export_filename Json (Some ident) s
                = ''property_search_'' @ ident @ ''_'' @ strftime_compact s @ ''.json''
              \<and> export_filename Csv (Some ident) s
                = ''property_search_'' @ ident @ ''_'' @ strftime_compact s @ ''.csv''
              \<and> export_filename Xlsx (Some ident) s
                = ''property_search_'' @ ident @ ''_'' @ strftime_compact s @ ''.xlsx''
              \<and> export_filename Pdf (Some ident) s
                = ''property_report_'' @ ident @ ''_'' @ strftime_compact s @ ''.pdf'')
         \<and> export_filename Json None s
             = ''property_search_export_'' @ strftime_compact s @ ''.json''
         \<and> export_filename Csv None s
             = ''property_search_export_'' @ strftime_compact s @ ''.csv''
         \<and> export_filename Xlsx None s
             = ''property_search_export_'' @ strftime_compact s @ ''.xlsx''
         \<and> export_filename Pdf None s
             = ''property_report_export_'' @ strftime_compact s @ ''.pdf''"
proof -
  have "strftime_compact s \<noteq> strftime_compact t"
    using strftime_compact_inj [OF assms(1,2)] assms(3) by auto
  then have "export_filename fmt search_id s \<noteq> export_filename fmt search_id t"
    by (cases fmt) simp_all
  then show ?thesis
    using assms(1)
    by (simp add: length_strftime_compact strftime_compact_underscore id_or_export_def)
qed

theorem filenames_distinct_per_second_witness:
  "export_filename Csv (Some ''s1'') example_time
     \<noteq> export_filename Csv (Some ''s1'') (example_time\<lparr>second := 1\<rparr>)
   \<and> export_filename Csv (Some ''s1'') example_time = ''property_search_s1_20240309_070500.csv''
   \<and> export_filename Pdf (Some ''s1'') example_time = ''property_report_s1_20240309_070500.pdf''
   \<and> export_filename Pdf None example_time = ''property_report_export_20240309_070500.pdf''"
proof -
  have v: "valid_datetime example_time" "valid_datetime (example_time\<lparr>second := 1\<rparr>)"
    by (simp_all add: valid_datetime_def example_time_def)
  have d: "(year example_time, month example_time, day example_time, hour example_time,
            minute example_time, second example_time)
         \<noteq> (year (example_time\<lparr>second := 1\<rparr>), month (example_time\<lparr>second := 1\<rparr>),
            day (example_time\<lparr>second := 1\<rparr>), hour (example_time\<lparr>second := 1\<rparr>),
            minute (example_time\<lparr>second := 1\<rparr>), second (example_time\<lparr>second := 1\<rparr>))"
    by (simp add: example_time_def)
  have c: "strftime_compact example_time = ''20240309_070500''" by code_simp
  have n: "''s1'' \<noteq> []" by simp
  from filenames_distinct_per_second [OF v d, of Csv "Some ''s1''" "''s1''"] n c
  show ?thesis by simp
qed


section \<open>Workbook export\<close>

lemma DataFrame_uniform:
  assumes "rows \<noteq> []" "distinct A" "\<forall>r \<in> set rows. map fst r = A"
  shows "columns (DataFrame rows) = A"
    and "cells (DataFrame rows) = map (map (Some \<circ> snd)) rows"
proof -
  have "df_columns rows = A @ (if \<exists>r \<in> set rows. False then [] else [])"
    using assms by (intro df_columns_shape) auto
  then have c: "df_columns rows = A" by simp
  then show "columns (DataFrame rows) = A" by (simp add: DataFrame_def)
  have "\<forall>r \<in> set rows. map (map_of r) A = map (Some \<circ> snd) r"
    using assms(2,3) map_of_own_keys by metis
  then show "cells (DataFrame rows) = map (map (Some \<circ> snd)) rows"
    by (simp add: DataFrame_def c)
qed

lemma excel_row_keys: "map fst (excel_row d) = excel_columns"
  by (simp add: excel_row_def excel_columns_def)

lemma excel_rows_length: "excel_rows ps = Inr rs \<Longrightarrow> length rs = length ps"
  by (induction ps arbitrary: rs) (auto split: pyval.splits sum.splits)

lemma excel_rows_nth:
  "excel_rows ps = Inr rs \<Longrightarrow> i < length ps \<Longrightarrow> \<exists>d. ps ! i = PDict d \<and> rs ! i = excel_row d"
proof (induction ps arbitrary: rs i)
  case Nil
  then show ?case by simp
next
  case (Cons p ps)
  then show ?case by (cases i) (auto split: pyval.splits sum.splits)
qed

lemma excel_rows_keys: "excel_rows ps = Inr rs \<Longrightarrow> \<forall>r \<in> set rs. map fst r = excel_columns"
  by (induction ps arbitrary: rs) (auto split: pyval.splits sum.splits simp: excel_row_keys)










lemma export_to_excel_Inr:
  assumes "export_to_excel search_results search_metadata search_id now = Inr (wb, fname)"
  obtains df_data tax_data property_tax_data metadata_data where
    "search_results \<noteq> []"
    "excel_rows search_results = Inr df_data"
    "tax_loop ''taxAssessments'' tax_assessment_row 0 search_results = Inr tax_data"
    "tax_loop ''propertyTaxes'' property_tax_row 0 search_results = Inr property_tax_data"
    "wb = [to_excel (DataFrame df_data) ''Properties'']
          @ (if tax_data \<noteq> [] then [to_excel (DataFrame tax_data) ''Tax Assessments''] else [])
          @ (if property_tax_data \<noteq> []
             then [to_excel (DataFrame property_tax_data) ''Property Taxes''] else [])
          @ (if truthy search_metadata
             then [to_excel (DataFrame metadata_data) ''Search Info''] else [])"
proof -
  from assms have body:
    "export_to_excel_body search_results search_metadata search_id now = Inr (wb, fname)"
    by (simp add: export_to_excel_def split: sum.splits)
  then have ne: "search_results \<noteq> []"
    by (auto simp: export_to_excel_body_def)
  from body ne obtain df_data where a: "excel_rows search_results = Inr df_data"
    by (cases "excel_rows search_results") (simp_all add: export_to_excel_body_def)
  from body ne a obtain tax_data where
    b: "tax_loop ''taxAssessments'' tax_assessment_row 0 search_results = Inr tax_data"
    by (cases "tax_loop ''taxAssessments'' tax_assessment_row 0 search_results")
       (simp_all add: export_to_excel_body_def)
  from body ne a b obtain property_tax_data where
    c: "tax_loop ''propertyTaxes'' property_tax_row 0 search_results = Inr property_tax_data"
    by (cases "tax_loop ''propertyTaxes'' property_tax_row 0 search_results")
       (simp_all add: export_to_excel_body_def)
  from body ne a b c obtain metadata_data where
    d: "(if truthy search_metadata then metadata_rows search_metadata else Inr [])
        = Inr metadata_data"
    by (cases "if truthy search_metadata then metadata_rows search_metadata else Inr []")
       (simp_all add: export_to_excel_body_def)
  from body ne a b c d have
    "wb = [to_excel (DataFrame df_data) ''Properties'']
          @ (if tax_data \<noteq> [] then [to_excel (DataFrame tax_data) ''Tax Assessments''] else [])
          @ (if property_tax_data \<noteq> []
             then [to_excel (DataFrame property_tax_data) ''Property Taxes''] else [])
          @ (if truthy search_metadata
             then [to_excel (DataFrame metadata_data) ''Search Info''] else [])"
    by (simp add: export_to_excel_body_def)
  with ne a b c show ?thesis by (rule that)
qed

lemma find_sheet_workbook:
  assumes "wb = [to_excel f1 ''Properties'']
          @ (if b2 then [to_excel f2 ''Tax Assessments''] else [])
          @ (if b3 then [to_excel f3 ''Property Taxes''] else [])
          @ (if b4 then [to_excel f4 ''Search Info''] else [])"
  shows "find_sheet ''Properties'' wb = Some f1"
    and "find_sheet ''Tax Assessments'' wb = (if b2 then Some f2 else None)"
    and "find_sheet ''Property Taxes'' wb = (if b3 then Some f3 else None)"
  unfolding assms by (simp_all add: to_excel_def)



text \<open>
  Claim C7, as amended. The \<^verbatim>\<open>Properties\<close> sheet of a successful \<^verbatim>\<open>export_to_excel\<close>
  has fifteen columns, Address to Owner Occupied, then County and Zoning, with neither
  Assessor ID nor the owner columns nor the feature columns; it has one row per
  record, in order, holding the values of that record.
\<close>

theorem workbook_properties_sheet:
  assumes "export_to_excel search_results search_metadata search_id now = Inr (wb, fname)"
  shows "\<exists>df. find_sheet ''Properties'' wb = Some df
           \<and> columns df = excel_columns
           \<and> length (cells df) = length search_results
           \<and> (\<forall>i < length search_results. \<exists>d.
                 search_results ! i = PDict d
                 \<and> cells df ! i = map (Some \<circ> snd) (excel_row d))"
proof -
  from assms obtain df_data tax_data property_tax_data metadata_data where
    ne: "search_results \<noteq> []" and
    a: "excel_rows search_results = Inr df_data"
    and wb: "wb = [to_excel (DataFrame df_data) ''Properties'']
          @ (if tax_data \<noteq> [] then [to_excel (DataFrame tax_data) ''Tax Assessments''] else [])
          @ (if property_tax_data \<noteq> []
             then [to_excel (DataFrame property_tax_data) ''Property Taxes''] else [])
          @ (if truthy search_metadata
             then [to_excel (DataFrame metadata_data) ''Search Info''] else [])"
    by (rule export_to_excel_Inr)
  have len: "length df_data = length search_results" using a by (rule excel_rows_length)
  with ne have ne': "df_data \<noteq> []" by auto
  have d: "distinct excel_columns" by (simp add: excel_columns_def)
  note df = DataFrame_uniform [OF ne' d excel_rows_keys [OF a]]
  have "find_sheet ''Properties'' wb = Some (DataFrame df_data)"
    by (rule find_sheet_workbook [OF wb])
  moreover have "columns (DataFrame df_data) = excel_columns" by (rule df)
  moreover have "length (cells (DataFrame df_data)) = length search_results"
    by (simp add: df len)
  moreover have "\<forall>i < length search_results. \<exists>d.
                 search_results ! i = PDict d
                 \<and> cells (DataFrame df_data) ! i = map (Some \<circ> snd) (excel_row d)"
    using excel_rows_nth [OF a] len by (fastforce simp: df)
  ultimately show ?thesis by blast
qed


lemma example_tax_export:
  "export_to_excel example_tax_records PNone None example_time
   = Inr (projr (export_to_excel example_tax_records PNone None example_time))"
  by code_simp


theorem workbook_properties_sheet_witness:
  "\<exists>wb fname df. export_to_excel example_tax_records PNone None example_time = Inr (wb, fname)
     \<and> find_sheet ''Properties'' wb = Some df
     \<and> columns df = excel_columns \<and> length (cells df) = 3"
proof -
  obtain wb fname where
    ex: "export_to_excel example_tax_records PNone None example_time = Inr (wb, fname)"
    using example_tax_export
    by (cases "projr (export_to_excel example_tax_records PNone None example_time)") simp
  have "length example_tax_records = 3" by (simp add: example_tax_records_def)
  with workbook_properties_sheet [OF ex] ex show ?thesis by auto
qed

text \<open>
  Claim C7 as stated fails: the \<^verbatim>\<open>Properties\<close> sheet of the export of one empty record
  has fifteen columns, without Assessor ID, Owner Names and Owner Type.
\<close>

theorem workbook_base_columns_counterexample:
  "export_to_excel [PDict []] PNone None
     \<lparr>year = 2024, month = 3, day = 9, hour = 7, minute = 5, second = 0, microsecond = 0\<rparr>
   = Inr ([\<lparr>sheet_name = ''Properties'',
            sheet_frame =
              \<lparr>columns =
                 [''Address'', ''City'', ''State'', ''ZIP Code'', ''Property Type'', ''Bedrooms'',
                  ''Bathrooms'', ''Square Footage'', ''Lot Size'', ''Year Built'',
                  ''Last Sale Price'', ''Last Sale Date'', ''Owner Occupied'', ''County'',
                  ''Zoning''],
               cells =
                 [[Some (PStr ''N/A''), Some (PStr ''N/A''), Some (PStr ''N/A''),
                   Some (PStr ''N/A''), Some (PStr ''N/A''), Some (PStr ''N/A''),
                   Some (PStr ''N/A''), Some (PStr ''N/A''), Some (PStr ''N/A''),
                   Some (PStr ''N/A''), Some (PStr ''N/A''), Some (PStr ''N/A''),
                   Some (PStr ''No''), Some (PStr ''N/A''), Some (PStr ''N/A'')]]\<rparr>\<rparr>],
          ''property_search_export_20240309_070500.xlsx'')"
  by code_simp


section \<open>Report export\<close>

lemma dict_get_dict_del:
  "dict_get (dict_del d k) k' dflt = (if k' = k then dflt else dict_get d k' dflt)"
  by (induction d) (auto simp: dict_get_def dict_del_def)

lemma pdf_prop_data_falsy_square_footage:
  assumes "\<not> truthy (dict_get d ''squareFootage'' PNone)"
  shows "pdf_prop_data (dict_del d ''squareFootage'') = pdf_prop_data d"
    and "pdf_prop_data d = Inr tbl \<Longrightarrow> tbl ! 4 = [PStr ''Square Footage'', PStr ''N/A'']"
  using assms by (auto simp: pdf_prop_data_def dict_get_dict_del split: sum.splits if_splits)

lemma pdf_prop_data_falsy_last_sale_price:
  assumes "\<not> truthy (dict_get d ''lastSalePrice'' PNone)"
  shows "pdf_prop_data (dict_del d ''lastSalePrice'') = pdf_prop_data d"
    and "pdf_prop_data d = Inr tbl \<Longrightarrow> tbl ! 6 = [PStr ''Last Sale Price'', PStr ''N/A'']"
  using assms by (auto simp: pdf_prop_data_def dict_get_dict_del split: sum.splits if_splits)

lemma pdf_prop_data_falsy_owner_occupied:
  assumes "\<not> truthy (dict_get d ''ownerOccupied'' PNone)"
  shows "pdf_prop_data (dict_del d ''ownerOccupied'') = pdf_prop_data d"
    and "pdf_prop_data d = Inr tbl \<Longrightarrow> tbl ! 7 = [PStr ''Owner Occupied'', PStr ''No'']"
  using assms
  by (auto simp: pdf_prop_data_def dict_get_dict_del yes_no_def split: sum.splits if_splits)

lemma pdf_property_sections_update:
  assumes "i < length ps" "ps ! i = PDict d" "pdf_prop_data d' = pdf_prop_data d"
  shows "pdf_property_sections n j (ps[i := PDict d']) = pdf_property_sections n j ps"
  using assms(1,2)
proof (induction ps arbitrary: i j)
  case Nil
  then show ?case by simp
next
  case (Cons p ps)
  show ?case
  proof (cases i)
    case 0
    with Cons.prems assms(3) show ?thesis by simp
  next
    case (Suc i')
    with Cons.prems have "pdf_property_sections n (j + 1) (ps[i' := PDict d'])
                          = pdf_property_sections n (j + 1) ps"
      by (intro Cons.IH) simp_all
    then show ?thesis
      unfolding Suc by (simp only: list_update_code pdf_property_sections.simps)
  qed
qed

lemma export_to_pdf_report_update:
  assumes "i < length ps" "ps ! i = PDict d" "pdf_prop_data d' = pdf_prop_data d"
  shows "export_to_pdf_report title (ps[i := PDict d']) md sid now
         = export_to_pdf_report title ps md sid now"
proof -
  have e: "(ps[i := PDict d'] = []) = (ps = [])" by simp
  show ?thesis
    unfolding export_to_pdf_report_def export_to_pdf_report_body_def length_list_update
      pdf_property_sections_update [OF assms] e ..
qed

lemma property_tables_append:
  "property_tables (xs @ ys) = property_tables xs @ property_tables ys"
  by (simp add: property_tables_def)

lemma property_tables_metadata:
  "pdf_metadata_section title md = Inr fs \<Longrightarrow> property_tables fs = []"
  by (auto simp: pdf_metadata_section_def property_tables_def Let_def
           split: if_splits sum.splits)

lemma property_tables_sections:
  assumes "pdf_property_sections n j ps = Inr fs"
  shows "length (property_tables fs) = length ps
         \<and> (\<forall>i < length ps. \<exists>d. ps ! i = PDict d
                \<and> pdf_prop_data d = Inr (property_tables fs ! i))"
  using assms
proof (induction ps arbitrary: j fs)
  case Nil
  then show ?case by (simp add: property_tables_def)
next
  case (Cons p ps)
  from Cons.prems obtain d tbl later where
    p: "p = PDict d" and tbl: "pdf_prop_data d = Inr tbl" and
    later: "pdf_property_sections n (j + 1) ps = Inr later" and
    fs: "fs = [Paragraph (''Property '' @ show_nat j) CustomHeading,
               Table tbl PropertyTable, Spacer 1 15]
              @ (if j mod 2 = 0 \<and> j < n then [Spacer 1 50] else []) @ later"
    by (auto split: pyval.splits sum.splits)
  have pt: "property_tables fs = tbl # property_tables later"
    unfolding fs property_tables_append by (simp add: property_tables_def)
  from Cons.IH [OF later] have
    len: "length (property_tables later) = length ps" and
    nth: "\<forall>i < length ps. \<exists>d. ps ! i = PDict d
            \<and> pdf_prop_data d = Inr (property_tables later ! i)"
    by auto
  have "\<exists>d. (p # ps) ! i = PDict d \<and> pdf_prop_data d = Inr (property_tables fs ! i)"
    if "i < length (p # ps)" for i
  proof (cases i)
    case 0
    with p tbl pt show ?thesis by simp
  next
    case (Suc i')
    with that nth pt show ?thesis by simp
  qed
  with len pt show ?case by simp
qed

lemma export_to_pdf_report_tables:
  assumes "export_to_pdf_report title ps md sid now = Inr (content, fname)"
    and "i < length ps" "ps ! i = PDict d"
  shows "pdf_prop_data d = Inr (property_tables content ! i)"
proof -
  from assms(1) obtain metadata sections where
    m: "pdf_metadata_section title md = Inr metadata" and
    s: "pdf_property_sections (length ps) 1 ps = Inr sections" and
    c: "content = [Paragraph ''Property Search Report'' CustomTitle] @ metadata
                  @ [Paragraph (''Properties Found: '' @ show_nat (length ps)) CustomHeading]
                  @ sections"
    by (auto simp: export_to_pdf_report_def export_to_pdf_report_body_def
             split: if_splits sum.splits)
  have "property_tables content = property_tables sections"
    unfolding c property_tables_append property_tables_metadata [OF m]
    by (simp add: property_tables_def)
  with property_tables_sections [OF s] assms(2,3) show ?thesis by auto
qed

text \<open>
  Claim C10. In the report, a record whose \<^verbatim>\<open>squareFootage\<close>, \<^verbatim>\<open>lastSalePrice\<close> or
  \<^verbatim>\<open>ownerOccupied\<close> is falsy (zero, \<^verbatim>\<open>None\<close>, \<^verbatim>\<open>False\<close>, an empty string, list or
  mapping) gives the same result of \<^verbatim>\<open>export_to_pdf_report\<close>, content and file name or
  exception, as the record without the field. When the report is produced, the cell
  of the field in the table of the record reads \<^verbatim>\<open>N/A\<close> for the square footage and
  the last sale price and \<^verbatim>\<open>No\<close> for the owner occupancy.
\<close>

theorem pdf_falsy_field_as_absent:
  assumes "i < length search_results" and "search_results ! i = PDict d"
    and "k = ''squareFootage'' \<or> k = ''lastSalePrice'' \<or> k = ''ownerOccupied''"
    and "\<not> truthy (dict_get d k PNone)"
  shows "export_to_pdf_report title (search_results[i := PDict (dict_del d k)])
           search_metadata search_id now
         = export_to_pdf_report title search_results search_metadata search_id now
       \<and> (\<forall>content fname.
            export_to_pdf_report title search_results search_metadata search_id now
              = Inr (content, fname) \<longrightarrow>
            (k = ''squareFootage'' \<longrightarrow>
               property_tables content ! i ! 4 = [PStr ''Square Footage'', PStr ''N/A''])
          \<and> (k = ''lastSalePrice'' \<longrightarrow>
               property_tables content ! i ! 6 = [PStr ''Last Sale Price'', PStr ''N/A''])
          \<and> (k = ''ownerOccupied'' \<longrightarrow>
               property_tables content ! i ! 7 = [PStr ''Owner Occupied'', PStr ''No'']))"
proof (intro conjI allI impI)
  have same: "pdf_prop_data (dict_del d k) = pdf_prop_data d"
    using assms(3)
  proof (elim disjE)
    assume "k = ''squareFootage''"
    with assms(4) show ?thesis by (simp add: pdf_prop_data_falsy_square_footage(1))
  next
    assume "k = ''lastSalePrice''"
    with assms(4) show ?thesis by (simp add: pdf_prop_data_falsy_last_sale_price(1))
  next
    assume "k = ''ownerOccupied''"
    with assms(4) show ?thesis by (simp add: pdf_prop_data_falsy_owner_occupied(1))
  qed
  show "export_to_pdf_report title (search_results[i := PDict (dict_del d k)])
           search_metadata search_id now
         = export_to_pdf_report title search_results search_metadata search_id now"
    by (rule export_to_pdf_report_update [OF assms(1,2) same])
next
  fix content fname
  assume ex: "export_to_pdf_report title search_results search_metadata search_id now
              = Inr (content, fname)" and k: "k = ''squareFootage''"
  have t: "pdf_prop_data d = Inr (property_tables content ! i)"
    by (rule export_to_pdf_report_tables [OF ex assms(1,2)])
  from assms(4) have "\<not> truthy (dict_get d ''squareFootage'' PNone)" unfolding k .
  then show "property_tables content ! i ! 4 = [PStr ''Square Footage'', PStr ''N/A'']"
    using t by (rule pdf_prop_data_falsy_square_footage(2))
next
  fix content fname
  assume ex: "export_to_pdf_report title search_results search_metadata search_id now
              = Inr (content, fname)" and k: "k = ''lastSalePrice''"
  have t: "pdf_prop_data d = Inr (property_tables content ! i)"
    by (rule export_to_pdf_report_tables [OF ex assms(1,2)])
  from assms(4) have "\<not> truthy (dict_get d ''lastSalePrice'' PNone)" unfolding k .
  then show "property_tables content ! i ! 6 = [PStr ''Last Sale Price'', PStr ''N/A'']"
    using t by (rule pdf_prop_data_falsy_last_sale_price(2))
next
  fix content fname
  assume ex: "export_to_pdf_report title search_results search_metadata search_id now
              = Inr (content, fname)" and k: "k = ''ownerOccupied''"
  have t: "pdf_prop_data d = Inr (property_tables content ! i)"
    by (rule export_to_pdf_report_tables [OF ex assms(1,2)])
  from assms(4) have "\<not> truthy (dict_get d ''ownerOccupied'' PNone)" unfolding k .
  then show "property_tables content ! i ! 7 = [PStr ''Owner Occupied'', PStr ''No'']"
    using t by (rule pdf_prop_data_falsy_owner_occupied(2))
qed

lemma example_report:
  "export_to_pdf_report id example_report_records PNone (Some ''s1'') example_time
   = Inr (projr (export_to_pdf_report id example_report_records PNone (Some ''s1'')
                   example_time))"
  by code_simp

theorem pdf_falsy_field_as_absent_witness:
  "\<exists>content fname.
     export_to_pdf_report id example_report_records PNone (Some ''s1'') example_time
       = Inr (content, fname)
     \<and> export_to_pdf_report id
         (example_report_records[1 := PDict (dict_del example_falsy_record ''squareFootage'')])
         PNone (Some ''s1'') example_time
       = Inr (content, fname)
     \<and> property_tables content ! 1 ! 4 = [PStr ''Square Footage'', PStr ''N/A'']
     \<and> property_tables content ! 1 ! 6 = [PStr ''Last Sale Price'', PStr ''N/A'']
     \<and> property_tables content ! 1 ! 7 = [PStr ''Owner Occupied'', PStr ''No'']"
proof -
  obtain content fname where
    ex: "export_to_pdf_report id example_report_records PNone (Some ''s1'') example_time
         = Inr (content, fname)"
    using example_report
    by (cases "projr (export_to_pdf_report id example_report_records PNone (Some ''s1'')
                        example_time)") simp
  have i: "1 < length example_report_records"
    "example_report_records ! 1 = PDict example_falsy_record"
    by (simp_all add: example_report_records_def)
  have f4: "\<not> truthy (dict_get example_falsy_record ''squareFootage'' PNone)"
    by code_simp
  have f6: "\<not> truthy (dict_get example_falsy_record ''lastSalePrice'' PNone)"
    by code_simp
  have f7: "\<not> truthy (dict_get example_falsy_record ''ownerOccupied'' PNone)"
    by code_simp
  note a4 = pdf_falsy_field_as_absent [OF i disjI1 f4, OF refl,
              of id PNone "Some ''s1''" example_time]
  note a6 = pdf_falsy_field_as_absent [OF i disjI2 f6, OF disjI1, OF refl,
              of id PNone "Some ''s1''" example_time]
  note a7 = pdf_falsy_field_as_absent [OF i disjI2 f7, OF disjI2, OF refl,
              of id PNone "Some ''s1''" example_time]
  from a4 ex have "export_to_pdf_report id
         (example_report_records[1 := PDict (dict_del example_falsy_record ''squareFootage'')])
         PNone (Some ''s1'') example_time
       = Inr (content, fname)"
    by (simp only:)
  moreover from a4 [THEN conjunct2, rule_format, OF ex]
  have "property_tables content ! 1 ! 4 = [PStr ''Square Footage'', PStr ''N/A'']"
    by (simp only: refl simp_thms)
  moreover from a6 [THEN conjunct2, rule_format, OF ex]
  have "property_tables content ! 1 ! 6 = [PStr ''Last Sale Price'', PStr ''N/A'']"
    by (simp only: refl simp_thms)
  moreover from a7 [THEN conjunct2, rule_format, OF ex]
  have "property_tables content ! 1 ! 7 = [PStr ''Owner Occupied'', PStr ''No'']"
    by (simp only: refl simp_thms)
  ultimately show ?thesis using ex by (intro exI conjI)
qed

end
